theory Spec2Isabelle
  imports Complex_Main "HOL-Library.AList" "HOL-Library.Sublist"
begin

section \<open>Python strings\<close>

text \<open>
  A Python \<open>str\<close> is a sequence of code points. The model is \<^typ>\<open>string\<close>, one
  \<^typ>\<open>char\<close> per code point, which covers the code points 0 to 255 (Latin-1: the
  accented letters of the French keywords in the patterns are single code points here,
  \<open>CHR 0xE9\<close> for U+00E9). The character properties below are the ones of CPython on
  that range. Python floats are modelled as exact rationals.
\<close>

definition ord :: "char \<Rightarrow> nat" where
  "ord c = of_char c"

definition chr :: "nat \<Rightarrow> char" where
  "chr n = char_of n"

definition between :: "nat \<Rightarrow> nat \<Rightarrow> nat \<Rightarrow> bool" where
  "between lo hi n = (lo \<le> n \<and> n \<le> hi)"

definition ch_isspace :: "char \<Rightarrow> bool" where
  "ch_isspace c = (let n = ord c in between 9 13 n \<or> between 28 32 n \<or> n = 133 \<or> n = 160)"

definition ch_isdecimal :: "char \<Rightarrow> bool" where
  "ch_isdecimal c = between 48 57 (ord c)"

definition ch_isdigit :: "char \<Rightarrow> bool" where
  "ch_isdigit c = (let n = ord c in between 48 57 n \<or> n = 178 \<or> n = 179 \<or> n = 185)"

definition ch_isnumeric :: "char \<Rightarrow> bool" where
  "ch_isnumeric c = (ch_isdigit c \<or> between 188 190 (ord c))"

definition ch_isupper :: "char \<Rightarrow> bool" where
  "ch_isupper c = (let n = ord c in between 65 90 n \<or> between 192 214 n \<or> between 216 222 n)"

definition ch_islower :: "char \<Rightarrow> bool" where
  "ch_islower c = (let n = ord c in
     between 97 122 n \<or> n = 170 \<or> n = 181 \<or> n = 186 \<or> between 223 246 n \<or> between 248 255 n)"

definition ch_isalpha :: "char \<Rightarrow> bool" where
  "ch_isalpha c = (ch_isupper c \<or> ch_islower c)"

definition ch_isword :: "char \<Rightarrow> bool" where
  \<comment> \<open>the class \<open>\w\<close> of \<open>re\<close> on \<open>str\<close> patterns: alphanumeric or underscore\<close>
  "ch_isword c = (ch_isalpha c \<or> ch_isnumeric c \<or> ord c = 95)"

definition ch_lower :: "char \<Rightarrow> char" where
  "ch_lower c = (if ch_isupper c then chr (ord c + 32) else c)"

definition ch_upper1 :: "char \<Rightarrow> char" where
  \<comment> \<open>the upper-case partner inside the range, where there is one\<close>
  "ch_upper1 c = (let n = ord c in
     if between 97 122 n \<or> between 224 246 n \<or> between 248 254 n then chr (n - 32) else c)"

definition ch_upper :: "char \<Rightarrow> string" where
  \<comment> \<open>\<open>str.upper\<close> per code point: U+00DF becomes \<open>SS\<close>; the upper-case forms of
      U+00B5 and U+00FF lie beyond code point 255 and are not representable, these two
      code points are left as they are\<close>
  "ch_upper c = (if ord c = 223 then ''SS'' else [ch_upper1 c])"

definition lower :: "string \<Rightarrow> string" where
  "lower s = map ch_lower s"

definition upper :: "string \<Rightarrow> string" where
  "upper s = concat (map ch_upper s)"

definition lstrip :: "string \<Rightarrow> string" where
  "lstrip s = dropWhile ch_isspace s"

definition rstrip :: "string \<Rightarrow> string" where
  "rstrip s = rev (dropWhile ch_isspace (rev s))"

definition strip :: "string \<Rightarrow> string" where
  "strip s = rstrip (lstrip s)"

definition isdigit :: "string \<Rightarrow> bool" where
  "isdigit s = (s \<noteq> [] \<and> list_all ch_isdigit s)"

definition isupper :: "string \<Rightarrow> bool" where
  "isupper s = (list_ex ch_isupper s \<and> \<not> list_ex ch_islower s)"

fun split_on :: "char \<Rightarrow> string \<Rightarrow> string list" where
  "split_on d [] = [[]]"
| "split_on d (c # cs) =
     (if c = d then [] # split_on d cs
      else (case split_on d cs of [] \<Rightarrow> [[c]] | p # ps \<Rightarrow> (c # p) # ps))"

definition replace_ch :: "char \<Rightarrow> char \<Rightarrow> string \<Rightarrow> string" where
  "replace_ch a b s = map (\<lambda>c. if c = a then b else c) s"

definition py_bool_str :: "string \<Rightarrow> bool" where
  "py_bool_str s = (s \<noteq> [])"


section \<open>Regular expressions of the \<open>re\<close> module\<close>

text \<open>
  The patterns of the program use literals, character sets, greedy repetition,
  alternation, capturing groups, \<open>^\<close>, \<open>$\<close> and \<open>\b\<close>. The matcher is the backtracking
  matcher of \<open>re\<close>: alternatives are tried left to right, repetitions take as much as
  they can and give back one iteration at a time, and the first way to reach the end of
  the pattern is the match. It is written with a continuation \<open>k\<close> for the rest of the
  pattern; \<open>None\<close> is failure, which makes the caller try its next choice.
  The flag \<open>ic\<close> is \<open>re.IGNORECASE\<close> (the inline \<open>(?i)\<close>).
\<close>

datatype citem = CChr char | CRange char char | CSpace | CDigit | CWord

datatype regex =
    Lit char
  | Cls bool "citem list"
  | Seq regex regex
  | Alt regex regex
  | Rep nat "nat option" regex
  | Grp nat regex
  | Eps
  | Bol
  | Eol
  | WordB

type_synonym groups = "(nat \<times> string) list"

type_synonym mstate = "char option \<times> string \<times> groups \<times> string list"

text \<open>
  A matcher state: the character before the position (for \<open>\b\<close> and \<open>^\<close>), the text
  from the position on, the groups closed so far, and the text consumed so far inside
  every group still open, innermost first and each in reverse (the outermost one is
  the whole match).
\<close>

fun item_match :: "bool \<Rightarrow> citem \<Rightarrow> char \<Rightarrow> bool" where
  "item_match ic (CChr x) c = (if ic then ch_lower x = c else x = c)"
| "item_match ic (CRange lo hi) c =
     (if ic then between (ord lo) (ord hi) (ord c) \<or> between (ord lo) (ord hi) (ord (ch_upper1 c))
      else between (ord lo) (ord hi) (ord c))"
| "item_match ic CSpace c = ch_isspace c"
| "item_match ic CDigit c = ch_isdecimal c"
| "item_match ic CWord c = ch_isword c"

definition cls_match :: "bool \<Rightarrow> bool \<Rightarrow> citem list \<Rightarrow> char \<Rightarrow> bool" where
  \<comment> \<open>under IGNORECASE the character is lowered and looked up in the lowered set\<close>
  "cls_match ic neg items c =
     (list_ex (\<lambda>i. item_match ic i (if ic then ch_lower c else c)) items \<noteq> neg)"

definition lit_match :: "bool \<Rightarrow> char \<Rightarrow> char \<Rightarrow> bool" where
  "lit_match ic x c = (if ic then ch_lower x = ch_lower c else x = c)"

definition dec_opt :: "nat option \<Rightarrow> nat option" where
  "dec_opt h = map_option (\<lambda>n. n - 1) h"

definition consume :: "char \<Rightarrow> string \<Rightarrow> groups \<Rightarrow> string list \<Rightarrow> mstate" where
  "consume c cs g opn = (Some c, cs, g, map ((#) c) opn)"

text \<open>
  Greedy repetition between \<open>lo\<close> and \<open>hi\<close> times of the body \<open>b\<close>: one more iteration
  first, the rest of the pattern when that fails. Every iteration has to consume text
  (every repeated body of the program's patterns does), so the text at the start of the
  repetition bounds the number of iterations: it is the argument the recursion runs on.
\<close>

fun rep :: "(mstate \<Rightarrow> (mstate \<Rightarrow> 'a option) \<Rightarrow> 'a option) \<Rightarrow> string \<Rightarrow> nat \<Rightarrow> nat option \<Rightarrow>
            mstate \<Rightarrow> (mstate \<Rightarrow> 'a option) \<Rightarrow> 'a option" where
  "rep b [] lo hi st k = (if lo = 0 then k st else None)"
| "rep b (f # fuel) lo hi st k =
     (if hi = Some 0 then k st
      else (case b st (\<lambda>st'. if fst (snd st') \<noteq> fst (snd st)
                               then rep b fuel (lo - 1) (dec_opt hi) st' k else None) of
              Some r \<Rightarrow> Some r
            | None \<Rightarrow> if lo = 0 then k st else None))"

fun rmatch :: "bool \<Rightarrow> regex \<Rightarrow> mstate \<Rightarrow> (mstate \<Rightarrow> 'a option) \<Rightarrow> 'a option" where
  "rmatch ic (Lit x) (p, s, g, opn) k =
     (case s of [] \<Rightarrow> None | c # cs \<Rightarrow> if lit_match ic x c then k (consume c cs g opn) else None)"
| "rmatch ic (Cls neg items) (p, s, g, opn) k =
     (case s of [] \<Rightarrow> None
      | c # cs \<Rightarrow> if cls_match ic neg items c then k (consume c cs g opn) else None)"
| "rmatch ic (Seq a b) st k = rmatch ic a st (\<lambda>st'. rmatch ic b st' k)"
| "rmatch ic (Alt a b) st k =
     (case rmatch ic a st k of Some r \<Rightarrow> Some r | None \<Rightarrow> rmatch ic b st k)"
| "rmatch ic (Rep lo hi r) (p, s, g, opn) k =
     rep (\<lambda>st' k'. rmatch ic r st' k') s lo hi (p, s, g, opn) k"
| "rmatch ic (Grp n r) (p, s, g, opn) k =
     rmatch ic r (p, s, g, [] # opn)
       (\<lambda>(p', s', g', opn'). case opn' of [] \<Rightarrow> None
                               | a # opn'' \<Rightarrow> k (p', s', AList.update n (rev a) g', opn''))"
| "rmatch ic Eps st k = k st"
| "rmatch ic Bol (p, s, g, opn) k = (if p = None then k (p, s, g, opn) else None)"
| "rmatch ic Eol (p, s, g, opn) k =
     (if s = [] \<or> s = [CHR 0x0A] then k (p, s, g, opn) else None)"
| "rmatch ic WordB (p, s, g, opn) k =
     (let a = (case p of None \<Rightarrow> False | Some c \<Rightarrow> ch_isword c);
          b = (case s of [] \<Rightarrow> False | c # _ \<Rightarrow> ch_isword c)
      in if a \<noteq> b then k (p, s, g, opn) else None)"

text \<open>
  One match: the matched text, the groups and what follows. The acceptance test at the
  end of the pattern refuses an empty match where the scanner must advance, as
  \<open>re\<close> does after an empty match at the same position.
\<close>

record rmatch_result =
  m_text :: string
  m_groups :: groups
  m_prev :: "char option"
  m_rest :: string

definition accept :: "bool \<Rightarrow> mstate \<Rightarrow> rmatch_result option" where
  "accept adv st =
     (case st of (p', s', g, opn) \<Rightarrow>
        (case opn of
           [w] \<Rightarrow> if adv \<and> w = [] then None
                  else Some \<lparr>m_text = rev w, m_groups = g, m_prev = p', m_rest = s'\<rparr>
         | _ \<Rightarrow> None))"

definition match_at :: "bool \<Rightarrow> regex \<Rightarrow> bool \<Rightarrow> char option \<Rightarrow> string \<Rightarrow> rmatch_result option" where
  "match_at ic r adv p s = rmatch ic r (p, s, [], [[]]) (accept adv)"

text \<open>
  The scanner of \<open>finditer\<close>, \<open>findall\<close>, \<open>split\<close> and \<open>sub\<close>: non-overlapping matches
  from left to right. It returns, for every match, the text skipped since the previous
  match together with the match, and the text left after the last match.
\<close>

function scan :: "bool \<Rightarrow> regex \<Rightarrow> bool \<Rightarrow> char option \<Rightarrow> string \<Rightarrow> string \<Rightarrow>
                  (string \<times> rmatch_result) list \<times> string" where
  "scan ic r adv p s acc =
     (case match_at ic r adv p s of
        Some mr \<Rightarrow>
          (if m_text mr = [] then
             (if adv then ([], rev acc @ s)
              else (let (ms, tl) = scan ic r True p s [] in ((rev acc, mr) # ms, tl)))
           else if length (m_rest mr) < length s then
             (let (ms, tl) = scan ic r False (m_prev mr) (m_rest mr) [] in ((rev acc, mr) # ms, tl))
           else ([], rev acc @ s))
      | None \<Rightarrow>
          (case s of
             [] \<Rightarrow> ([], rev acc)
           | c # cs \<Rightarrow> scan ic r False (Some c) cs (c # acc)))"
  by pat_completeness auto
termination
  by (relation "measure (\<lambda>(ic, r, adv, p, s, acc). 2 * length s + (if adv then 0 else 1))") auto

definition finditer :: "bool \<Rightarrow> regex \<Rightarrow> string \<Rightarrow> rmatch_result list" where
  "finditer ic r s = map snd (fst (scan ic r False None s []))"

definition findall :: "bool \<Rightarrow> regex \<Rightarrow> string \<Rightarrow> string list" where
  \<comment> \<open>for a pattern without groups: the matched texts\<close>
  "findall ic r s = map m_text (finditer ic r s)"

definition re_match :: "bool \<Rightarrow> regex \<Rightarrow> string \<Rightarrow> rmatch_result option" where
  "re_match ic r s = match_at ic r False None s"

definition re_search :: "bool \<Rightarrow> regex \<Rightarrow> string \<Rightarrow> rmatch_result option" where
  "re_search ic r s = (case finditer ic r s of [] \<Rightarrow> None | mr # _ \<Rightarrow> Some mr)"

definition re_split :: "bool \<Rightarrow> regex \<Rightarrow> string \<Rightarrow> string list" where
  \<comment> \<open>for a pattern without groups: the texts between the matches\<close>
  "re_split ic r s = (let (ms, tl) = scan ic r False None s [] in map fst ms @ [tl])"

definition re_sub :: "bool \<Rightarrow> regex \<Rightarrow> string \<Rightarrow> string \<Rightarrow> string" where
  \<comment> \<open>for a replacement without group references\<close>
  "re_sub ic r repl s =
     (let (ms, tl) = scan ic r False None s [] in concat (map (\<lambda>(gap, mr). gap @ repl) ms) @ tl)"

definition re_escape :: "string \<Rightarrow> regex" where
  \<comment> \<open>the pattern \<open>re.escape\<close> builds matches its argument literally\<close>
  "re_escape s = foldr (\<lambda>c r. Seq (Lit c) r) s Eps"

definition group :: "rmatch_result \<Rightarrow> nat \<Rightarrow> string option" where
  "group mr n = map_of (m_groups mr) n"

subsection \<open>Pattern syntax\<close>

definition lit :: "string \<Rightarrow> regex" where
  "lit s = foldr (\<lambda>c r. Seq (Lit c) r) s Eps"

fun alts :: "regex list \<Rightarrow> regex" where
  "alts [] = Eps"
| "alts [r] = r"
| "alts (r # rs) = Alt r (alts rs)"

fun seqs :: "regex list \<Rightarrow> regex" where
  "seqs [] = Eps"
| "seqs [r] = r"
| "seqs (r # rs) = Seq r (seqs rs)"

definition star :: "regex \<Rightarrow> regex" where
  "star r = Rep 0 None r"

definition plus :: "regex \<Rightarrow> regex" where
  "plus r = Rep 1 None r"

definition opt :: "regex \<Rightarrow> regex" where
  "opt r = Rep 0 (Some 1) r"

definition at_least :: "nat \<Rightarrow> regex \<Rightarrow> regex" where
  "at_least n r = Rep n None r"

definition from_to :: "nat \<Rightarrow> nat \<Rightarrow> regex \<Rightarrow> regex" where
  "from_to n m r = Rep n (Some m) r"

definition cset :: "citem list \<Rightarrow> regex" where
  "cset items = Cls False items"

definition nset :: "citem list \<Rightarrow> regex" where
  "nset items = Cls True items"

abbreviation "A_Z \<equiv> CRange CHR ''A'' CHR ''Z''"
abbreviation "a_z \<equiv> CRange CHR ''a'' CHR ''z''"
abbreviation "d0_9 \<equiv> CRange CHR ''0'' CHR ''9''"

fun ngroups :: "regex \<Rightarrow> nat" where
  "ngroups (Seq a b) = ngroups a + ngroups b"
| "ngroups (Alt a b) = ngroups a + ngroups b"
| "ngroups (Rep lo hi r) = ngroups r"
| "ngroups (Grp n r) = Suc (ngroups r)"
| "ngroups r = 0"

fun contains :: "string \<Rightarrow> string \<Rightarrow> bool" where
  \<comment> \<open>\<open>contains s w\<close> is Python's \<open>w in s\<close>\<close>
  "contains [] w = (w = [])"
| "contains (c # cs) w = (take (length w) (c # cs) = w \<or> contains cs w)"


section \<open>Data model (\<open>app/models/schemas.py\<close>)\<close>

text \<open>
  The fields carry a prefix since record fields share one name space. The two time
  stamps of a product are not modelled. A field declared with \<open>ge=0.0, le=1.0\<close> is
  checked when the object is built, and the constructor raises \<open>ValidationError\<close>
  otherwise. All the exceptions below are subclasses of \<open>Exception\<close>.
\<close>

datatype exc = ValidationError | AttributeError | IndexError | TypeError | BackendError string
  | VectorStoreError string exc

record ProductBrand =
  b_name :: string
  b_normalized_name :: string
  b_aliases :: "string list"
  b_confidence :: rat

record ProductReference =
  r_reference :: string
  r_normalized_reference :: string
  r_format_pattern :: "string option"
  r_confidence :: rat

record ProductCharacteristic =
  c_name :: string
  c_value :: string
  c_unit :: "string option"
  c_category :: "string option"
  c_normalized_name :: string
  c_normalized_value :: string

record Product =
  p_id :: "string option"
  p_name :: string
  p_brand :: ProductBrand
  p_reference :: ProductReference
  p_characteristics :: "ProductCharacteristic list"
  p_description :: "string option"
  p_category :: "string option"
  p_price :: "rat option"
  p_currency :: "string option"
  p_source_document :: "string option"
  p_extraction_confidence :: rat

definition in_unit :: "rat \<Rightarrow> bool" where
  "in_unit x = (0 \<le> x \<and> x \<le> 1)"

definition new_ProductBrand :: "string \<Rightarrow> string \<Rightarrow> string list \<Rightarrow> rat \<Rightarrow> exc + ProductBrand" where
  "new_ProductBrand n nn al c =
     (if in_unit c
      then Inr \<lparr>b_name = n, b_normalized_name = nn, b_aliases = al, b_confidence = c\<rparr>
      else Inl ValidationError)"

definition new_ProductReference ::
    "string \<Rightarrow> string \<Rightarrow> string option \<Rightarrow> rat \<Rightarrow> exc + ProductReference" where
  "new_ProductReference v nv fp c =
     (if in_unit c
      then Inr \<lparr>r_reference = v, r_normalized_reference = nv, r_format_pattern = fp,
                r_confidence = c\<rparr>
      else Inl ValidationError)"

definition new_Product ::
    "string option \<Rightarrow> string \<Rightarrow> ProductBrand \<Rightarrow> ProductReference \<Rightarrow> ProductCharacteristic list \<Rightarrow>
     string option \<Rightarrow> rat option \<Rightarrow> string option \<Rightarrow> string option \<Rightarrow> rat \<Rightarrow> exc + Product" where
  "new_Product i n b r cs cat price cur src conf =
     (if in_unit conf \<and> (case price of None \<Rightarrow> True | Some x \<Rightarrow> 0 \<le> x)
      then Inr \<lparr>p_id = i, p_name = n, p_brand = b, p_reference = r, p_characteristics = cs,
                p_description = None, p_category = cat, p_price = price, p_currency = cur,
                p_source_document = src, p_extraction_confidence = conf\<rparr>
      else Inl ValidationError)"


section \<open>The extractor (\<open>app/extraction/product_extractor.py\<close>)\<close>

subsection \<open>Pattern library\<close>

record ExtractionPattern =
  pat_name :: string
  pat_ic :: bool
  pattern :: regex
  confidence_modifier :: rat

definition pat :: "string \<Rightarrow> bool \<Rightarrow> regex \<Rightarrow> rat \<Rightarrow> ExtractionPattern" where
  "pat n ic r m = \<lparr>pat_name = n, pat_ic = ic, pattern = r, confidence_modifier = m\<rparr>"

abbreviation "e_acute \<equiv> CHR 0xE9"
abbreviation "e_grave \<equiv> CHR 0xE8"
abbreviation "colon \<equiv> CChr CHR '':''"

definition sep :: regex where
  \<comment> \<open>\<open>[\s:]*\<close>\<close>
  "sep = star (cset [CSpace, colon])"

definition number :: regex where
  \<comment> \<open>\<open>[0-9]+(?:[.,][0-9]+)?\<close>\<close>
  "number = Seq (plus (cset [d0_9]))
               (opt (Seq (cset [CChr CHR ''.'', CChr CHR '','']) (plus (cset [d0_9]))))"

definition load_brand_patterns :: "ExtractionPattern list" where
  "load_brand_patterns =
    [pat ''brand_prefix'' True
       (seqs [alts [lit ''marque'', lit ''brand'', lit ''fabricant'', lit ''manufacturer''], sep,
              Grp 1 (Seq (cset [A_Z])
                         (plus (cset [A_Z, a_z, CSpace, CChr CHR ''&'', CChr CHR ''-''])))]) 0.9,
     pat ''brand_caps'' False
       (seqs [WordB,
              Grp 1 (Seq (at_least 2 (cset [A_Z]))
                         (star (Seq (plus (cset [CSpace])) (at_least 2 (cset [A_Z]))))),
              WordB]) 0.7,
     pat ''brand_mixed'' False
       (seqs [WordB,
              Grp 1 (seqs [cset [A_Z], plus (cset [a_z]),
                           star (seqs [plus (cset [CSpace]), cset [A_Z], plus (cset [a_z])])]),
              WordB]) 0.6,
     pat ''brand_with_symbols'' False
       (seqs [WordB,
              Grp 1 (seqs [cset [A_Z],
                           plus (cset [A_Z, a_z, d0_9, CChr CHR ''&'', CChr CHR ''-'']),
                           star (seqs [plus (cset [CSpace]), cset [A_Z],
                                       plus (cset [A_Z, a_z, d0_9, CChr CHR ''&'', CChr CHR ''-''])])]),
              WordB]) 0.5]"

definition load_reference_patterns :: "ExtractionPattern list" where
  "load_reference_patterns =
    [pat ''ref_prefix'' True
       (seqs [alts [lit (''r'' @ [e_acute] @ ''f'' @ [e_acute] @ ''rence''), lit ''reference'',
                    lit ''ref'', lit (''r'' @ [e_acute] @ ''f''), lit ''model'',
                    lit (''mod'' @ [e_grave] @ ''le'')],
              sep,
              Grp 1 (plus (cset [A_Z, d0_9, CChr CHR ''-'']))]) 0.95,
     pat ''ref_alphanumeric'' False
       (seqs [WordB,
              Grp 1 (seqs [from_to 1 4 (cset [A_Z]), from_to 2 8 (cset [d0_9]),
                           star (cset [A_Z, d0_9, CChr CHR ''-''])]),
              WordB]) 0.8,
     pat ''ref_numeric'' False
       (seqs [WordB, Grp 1 (from_to 4 12 (cset [d0_9])), WordB]) 0.6,
     pat ''ref_mixed'' False
       (seqs [WordB, Grp 1 (from_to 6 15 (cset [A_Z, d0_9])), WordB]) 0.7]"

definition load_characteristic_patterns :: "ExtractionPattern list" where
  "load_characteristic_patterns =
    [pat ''dimension'' True
       (seqs [Grp 1 (alts [lit ''longueur'', lit ''largeur'', lit ''hauteur'', lit ''diameter'',
                           lit (''diam'' @ [e_grave] @ ''tre''), lit ''taille'', lit ''size'']),
              sep, Grp 2 number, star (cset [CSpace]), Grp 3 (from_to 1 3 (cset [a_z]))]) 0.9,
     pat ''weight'' True
       (seqs [Grp 1 (alts [lit ''poids'', lit ''weight'', lit ''masse'']),
              sep, Grp 2 number, star (cset [CSpace]),
              Grp 3 (alts [lit ''kg'', lit ''g'', lit ''lb''])]) 0.9,
     pat ''material'' True
       (seqs [Grp 1 (alts [lit (''mat'' @ [e_acute] @ ''riau''), lit ''material'',
                           lit (''mati'' @ [e_grave] @ ''re'')]),
              sep, Grp 2 (plus (cset [A_Z, a_z, CSpace]))]) 0.8,
     pat ''color'' True
       (seqs [Grp 1 (alts [lit ''couleur'', lit ''color'', lit ''coloration'']),
              sep, Grp 2 (plus (cset [A_Z, a_z, CSpace]))]) 0.8,
     pat ''voltage'' True
       (seqs [Grp 1 (alts [lit ''tension'', lit ''voltage'', lit ''volt'']),
              sep, Grp 2 number, star (cset [CSpace]),
              Grp 3 (cset [CChr CHR ''v'', CChr CHR ''V''])]) 0.9,
     pat ''power'' True
       (seqs [Grp 1 (alts [lit ''puissance'', lit ''power'', lit ''watt'']),
              sep, Grp 2 number, star (cset [CSpace]),
              Grp 3 (cset [CChr CHR ''w'', CChr CHR ''W''])]) 0.9,
     pat ''generic_numeric'' False
       (seqs [Grp 1 (plus (cset [A_Z, a_z, CSpace])),
              sep, Grp 2 number, star (cset [CSpace]), Grp 3 (plus (cset [A_Z, a_z]))]) 0.6]"

subsection \<open>Validation and normalisation\<close>

definition is_valid_brand :: "string \<Rightarrow> bool" where
  "is_valid_brand brand =
     (length brand \<ge> 2 \<and> length brand \<le> 50 \<and> \<not> isdigit brand \<and>
      re_match False (seqs [Bol, star (nset [A_Z, a_z]), Eol]) brand = None)"

definition is_valid_reference :: "string \<Rightarrow> bool" where
  "is_valid_reference reference =
     (length reference \<ge> 3 \<and> length reference \<le> 20 \<and>
      re_search False (cset [A_Z, a_z, d0_9]) reference \<noteq> None)"

definition is_valid_characteristic :: "string \<Rightarrow> string \<Rightarrow> bool" where
  "is_valid_characteristic name val =
     (length name \<ge> 2 \<and> length name \<le> 50 \<and> length val \<ge> 1 \<and> length val \<le> 100)"

definition normalize_brand_name :: "string \<Rightarrow> string" where
  "normalize_brand_name brand = re_sub False (plus (cset [CSpace])) '' '' (strip (upper brand))"

definition normalize_reference :: "string \<Rightarrow> string" where
  "normalize_reference reference = re_sub False (nset [A_Z, d0_9]) [] (upper reference)"

definition normalize_characteristic_name :: "string \<Rightarrow> string" where
  "normalize_characteristic_name name =
     re_sub False (plus (cset [CSpace])) '' '' (strip (lower name))"

definition normalize_characteristic_value :: "string \<Rightarrow> string option \<Rightarrow> string" where
  "normalize_characteristic_value val unit =
     (let normalized = strip (replace_ch CHR '','' CHR ''.'' val) in
      case unit of
        None \<Rightarrow> normalized
      | Some u \<Rightarrow> if u \<noteq> [] then normalized @ '' '' @ lower u else normalized)"

definition categorize_characteristic :: "string \<Rightarrow> string" where
  "categorize_characteristic name =
     (let name_lower = lower name in
      if list_ex (contains name_lower)
           [''longueur'', ''largeur'', ''hauteur'', ''dimension'', ''taille''] then ''dimension''
      else if list_ex (contains name_lower) [''poids'', ''masse'', ''weight''] then ''poids''
      else if list_ex (contains name_lower)
           [''mat'' @ [e_acute] @ ''riau'', ''material'', ''mati'' @ [e_grave] @ ''re'']
        then ''materiau''
      else if list_ex (contains name_lower) [''couleur'', ''color''] then ''couleur''
      else if list_ex (contains name_lower) [''tension'', ''voltage'', ''volt''] then ''electrique''
      else if list_ex (contains name_lower) [''puissance'', ''power'', ''watt''] then ''puissance''
      else ''autre'')"

subsection \<open>Confidence\<close>

definition calculate_brand_confidence :: "string \<Rightarrow> string \<Rightarrow> rat" where
  "calculate_brand_confidence brand text =
     (let confidence = 0.5;
          occurrences = length (findall True (re_escape brand) text);
          confidence = confidence + min (of_nat occurrences * 0.1) 0.3;
          confidence = (if isupper brand then confidence + 0.1 else confidence)
      in min confidence 1.0)"

definition calculate_reference_confidence :: "string \<Rightarrow> string \<Rightarrow> rat" where
  "calculate_reference_confidence reference text =
     (let confidence = 0.5;
          confidence =
            (if re_match False (seqs [Bol, from_to 2 4 (cset [A_Z]), at_least 3 (cset [d0_9])])
                  reference \<noteq> None
             then confidence + 0.2 else confidence);
          confidence =
            (if re_search True
                  (seqs [alts [lit ''ref'', lit (''r'' @ [e_acute] @ ''f'' @ [e_acute] @ ''rence''),
                               lit ''model'', lit (''mod'' @ [e_grave] @ ''le'')],
                         sep, re_escape reference]) text \<noteq> None
             then confidence + 0.3 else confidence)
      in min confidence 1.0)"

definition calculate_extraction_confidence ::
    "ProductBrand list \<Rightarrow> ProductReference list \<Rightarrow> ProductCharacteristic list \<Rightarrow> rat" where
  "calculate_extraction_confidence brands references characteristics =
     (let brand_conf = (case brands of [] \<Rightarrow> 0 | b # _ \<Rightarrow> b_confidence b);
          ref_conf = (case references of [] \<Rightarrow> 0 | r # _ \<Rightarrow> r_confidence r);
          char_conf = min (of_nat (length characteristics) / 5.0) 1.0
      in brand_conf * 0.4 + ref_conf * 0.4 + char_conf * 0.2)"

subsection \<open>Deduplication\<close>

fun dedup_loop :: "('a \<Rightarrow> 'k) \<Rightarrow> 'a list \<Rightarrow> 'k set \<Rightarrow> 'a list \<Rightarrow> 'a list" where
  \<comment> \<open>the loop shared by the three deduplication methods: \<open>seen\<close> is the set of keys,
      \<open>unique\<close> the list built so far\<close>
  "dedup_loop key [] seen unique = unique"
| "dedup_loop key (x # xs) seen unique =
     (if key x \<notin> seen then dedup_loop key xs (insert (key x) seen) (unique @ [x])
      else dedup_loop key xs seen unique)"

definition deduplicate_brands :: "ProductBrand list \<Rightarrow> ProductBrand list" where
  "deduplicate_brands brands = dedup_loop b_normalized_name brands {} []"

definition deduplicate_references :: "ProductReference list \<Rightarrow> ProductReference list" where
  "deduplicate_references references = dedup_loop r_normalized_reference references {} []"

definition deduplicate_characteristics ::
    "ProductCharacteristic list \<Rightarrow> ProductCharacteristic list" where
  "deduplicate_characteristics characteristics =
     dedup_loop (\<lambda>c. (c_normalized_name c, c_normalized_value c)) characteristics {} []"

subsection \<open>Candidates\<close>

text \<open>
  The two nested \<open>for\<close> loops of each extraction method: over the patterns, and over the
  matches of a pattern, appending to one list. \<open>sorted(..., reverse=True)\<close> is stable
  and descending, which is a stable ascending sort on the negated key.
\<close>

fun matches_loop :: "('m \<Rightarrow> exc + 'b option) \<Rightarrow> 'm list \<Rightarrow> 'b list \<Rightarrow> exc + 'b list" where
  "matches_loop f [] acc = Inr acc"
| "matches_loop f (m # ms) acc =
     (case f m of
        Inl e \<Rightarrow> Inl e
      | Inr None \<Rightarrow> matches_loop f ms acc
      | Inr (Some b) \<Rightarrow> matches_loop f ms (acc @ [b]))"

fun patterns_loop :: "(ExtractionPattern \<Rightarrow> rmatch_result \<Rightarrow> exc + 'b option) \<Rightarrow> string \<Rightarrow>
                      ExtractionPattern list \<Rightarrow> 'b list \<Rightarrow> exc + 'b list" where
  "patterns_loop f text [] acc = Inr acc"
| "patterns_loop f text (p # ps) acc =
     (case matches_loop (f p) (finditer (pat_ic p) (pattern p) text) acc of
        Inl e \<Rightarrow> Inl e
      | Inr acc' \<Rightarrow> patterns_loop f text ps acc')"

definition brand_of_match :: "string \<Rightarrow> ExtractionPattern \<Rightarrow> rmatch_result \<Rightarrow> exc + ProductBrand option" where
  "brand_of_match text p m =
     (case group m 1 of
        None \<Rightarrow> Inl AttributeError
      | Some g \<Rightarrow>
          (let brand_name = strip g in
           if is_valid_brand brand_name then
             (let confidence = confidence_modifier p * calculate_brand_confidence brand_name text in
              case new_ProductBrand brand_name (normalize_brand_name brand_name) [] confidence of
                Inl e \<Rightarrow> Inl e
              | Inr brand \<Rightarrow> Inr (Some brand))
           else Inr None))"

definition extract_brands :: "string \<Rightarrow> exc + ProductBrand list" where
  "extract_brands text =
     (case patterns_loop (brand_of_match text) text load_brand_patterns [] of
        Inl e \<Rightarrow> Inl e
      | Inr brands \<Rightarrow>
          Inr (take 3 (sort_key (\<lambda>x. - b_confidence x) (deduplicate_brands brands))))"

definition reference_of_match ::
    "string \<Rightarrow> ExtractionPattern \<Rightarrow> rmatch_result \<Rightarrow> exc + ProductReference option" where
  "reference_of_match text p m =
     (case group m 1 of
        None \<Rightarrow> Inl AttributeError
      | Some g \<Rightarrow>
          (let ref_value = strip g in
           if is_valid_reference ref_value then
             (let confidence =
                    confidence_modifier p * calculate_reference_confidence ref_value text in
              case new_ProductReference ref_value (normalize_reference ref_value)
                     (Some (pat_name p)) confidence of
                Inl e \<Rightarrow> Inl e
              | Inr reference \<Rightarrow> Inr (Some reference))
           else Inr None))"

definition extract_references :: "string \<Rightarrow> exc + ProductReference list" where
  "extract_references text =
     (case patterns_loop (reference_of_match text) text load_reference_patterns [] of
        Inl e \<Rightarrow> Inl e
      | Inr references \<Rightarrow>
          Inr (take 3 (sort_key (\<lambda>x. - r_confidence x) (deduplicate_references references))))"

definition characteristic_of_match ::
    "ExtractionPattern \<Rightarrow> rmatch_result \<Rightarrow> exc + ProductCharacteristic option" where
  "characteristic_of_match p m =
     (if ngroups (pattern p) \<ge> 2 then
        (case (group m 1, group m 2) of
           (Some g1, Some g2) \<Rightarrow>
             (let char_name = strip g1; char_value = strip g2 in
              case (if ngroups (pattern p) \<ge> 3
                    then (case group m 3 of None \<Rightarrow> Inl AttributeError
                          | Some g3 \<Rightarrow> Inr (Some (strip g3)))
                    else Inr None) of
                Inl e \<Rightarrow> Inl e
              | Inr char_unit \<Rightarrow>
                  if is_valid_characteristic char_name char_value then
                    Inr (Some \<lparr>c_name = char_name, c_value = char_value, c_unit = char_unit,
                               c_category = Some (categorize_characteristic char_name),
                               c_normalized_name = normalize_characteristic_name char_name,
                               c_normalized_value =
                                 normalize_characteristic_value char_value char_unit\<rparr>)
                  else Inr None)
         | _ \<Rightarrow> Inl AttributeError)
      else Inr None)"

definition extract_characteristics :: "string \<Rightarrow> exc + ProductCharacteristic list" where
  "extract_characteristics text =
     (case patterns_loop characteristic_of_match text load_characteristic_patterns [] of
        Inl e \<Rightarrow> Inl e
      | Inr characteristics \<Rightarrow> Inr (deduplicate_characteristics characteristics))"

subsection \<open>Product name\<close>

definition looks_like_metadata :: "string \<Rightarrow> bool" where
  \<comment> \<open>\<open>re.match(r'^\d+[\.\)]', line)\<close> or \<open>re.match(r'^[A-Z\s]+$', line)\<close>\<close>
  "looks_like_metadata line =
     (re_match False (seqs [Bol, plus (cset [CDigit]), cset [CChr CHR ''.'', CChr CHR '')'']]) line
        \<noteq> None
      \<or> re_match False (seqs [Bol, plus (cset [A_Z, CSpace]), Eol]) line \<noteq> None)"

fun first_name_line :: "string list \<Rightarrow> string option" where
  "first_name_line [] = None"
| "first_name_line (l # ls) =
     (let line = strip l in
      if length line > 10 \<and> length line < 100 \<and> \<not> looks_like_metadata line then Some line
      else first_name_line ls)"

fun first_nonempty_line :: "string list \<Rightarrow> string option" where
  "first_nonempty_line [] = None"
| "first_nonempty_line (l # ls) =
     (let line = strip l in if line \<noteq> [] then Some (take 80 line) else first_nonempty_line ls)"

definition extract_product_name :: "string \<Rightarrow> string" where
  "extract_product_name text =
     (let lines = split_on CHR 0x0A text in
      case first_name_line lines of
        Some line \<Rightarrow> line
      | None \<Rightarrow>
          (case first_nonempty_line lines of
             Some line \<Rightarrow> line
           | None \<Rightarrow> ''Produit extrait''))"

subsection \<open>Sections\<close>

definition split_patterns :: "regex list" where
  "split_patterns =
     [seqs [Lit CHR 0x0A, star (cset [CSpace]), plus (cset [CDigit]),
            cset [CChr CHR ''.'', CChr CHR '')''], plus (cset [CSpace])],
      seqs [Lit CHR 0x0A, star (cset [CSpace]), cset [A_Z], at_least 10 (cset [A_Z, CSpace]),
            Lit CHR 0x0A],
      seqs [Lit CHR 0x0A, star (cset [CSpace]), at_least 3 (cset [CChr CHR ''-'', CChr CHR ''='']),
            star (cset [CSpace]), Lit CHR 0x0A],
      seqs [Lit CHR 0x0A, star (cset [CSpace]), lit ''PRODUIT'', star (cset [CSpace]),
            star (cset [CDigit]), star (cset [CSpace]), cset [colon, CChr CHR ''.''],
            star (cset [CSpace])]]"

definition split_section :: "regex \<Rightarrow> string \<Rightarrow> string list" where
  \<comment> \<open>\<open>[part.strip() for part in re.split(pattern, section, flags=re.IGNORECASE)
      if part.strip()]\<close>\<close>
  "split_section r section = filter (\<lambda>part. part \<noteq> []) (map strip (re_split True r section))"

fun cascade :: "regex list \<Rightarrow> string list \<Rightarrow> string list" where
  "cascade [] sections = sections"
| "cascade (r # rs) sections = cascade rs (concat (map (split_section r) sections))"

definition split_into_product_sections :: "string \<Rightarrow> string list" where
  "split_into_product_sections text =
     (let sections = cascade split_patterns [text];
          filtered_sections = filter (\<lambda>section. 50 \<le> length section \<and> length section \<le> 2000) sections
      in if filtered_sections \<noteq> [] then filtered_sections else [text])"

subsection \<open>Products\<close>

text \<open>
  The product id is a digest of the source name, the section index and the clock; the
  function that computes it is the parameter \<open>gen_id\<close>.
\<close>

definition extract_single_product ::
    "(string \<Rightarrow> nat \<Rightarrow> string) \<Rightarrow> string \<Rightarrow> string \<Rightarrow> nat \<Rightarrow> exc + Product option" where
  "extract_single_product gen_id text source_path section_idx =
     (case extract_brands text of
        Inl e \<Rightarrow> Inl e
      | Inr [] \<Rightarrow> Inr None
      | Inr (brand # brands') \<Rightarrow>
          (case extract_references text of
             Inl e \<Rightarrow> Inl e
           | Inr [] \<Rightarrow> Inr None
           | Inr (reference # references') \<Rightarrow>
               (case extract_characteristics text of
                  Inl e \<Rightarrow> Inl e
                | Inr characteristics \<Rightarrow>
                    (let product_name = extract_product_name text;
                         confidence = calculate_extraction_confidence (brand # brands')
                                        (reference # references') characteristics
                     in case new_Product (Some (gen_id source_path section_idx)) product_name
                               brand reference characteristics None None (Some ''EUR'')
                               (Some source_path) confidence of
                          Inl e \<Rightarrow> Inl e
                        | Inr product \<Rightarrow> Inr (Some product)))))"





section \<open>The hybrid retriever (\<open>app/vectorstore/hybrid_retriever.py\<close>)\<close>

subsection \<open>Collaborators\<close>

text \<open>
  The vector store, the lexical ranking and the numeric library are libraries outside
  the repository. They are parameters of the model: \<open>'c\<close> is the state of the ChromaDB
  collection, and the record below holds the operations the retriever calls on it.
  A metadata dictionary is a record of the keys the retriever writes and reads; an
  absent key is \<open>None\<close>. A missing or empty entry of a query result is the empty list.
\<close>

datatype MatchingStage = BRAND_MATCHING | REFERENCE_MATCHING | CHARACTERISTIC_MATCHING

record chroma_metadata =
  md_product_id :: "string option"
  md_product_name :: "string option"
  md_brand_name :: "string option"
  md_brand_normalized :: "string option"
  md_reference :: "string option"
  md_reference_normalized :: "string option"
  md_source_document :: "string option"
  md_extraction_confidence :: "rat option"
  md_category :: "string option"
  md_price :: "rat option"
  md_currency :: "string option"
  md_characteristics_count :: "nat option"

definition empty_metadata :: chroma_metadata where
  "empty_metadata =
     \<lparr>md_product_id = None, md_product_name = None, md_brand_name = None,
      md_brand_normalized = None, md_reference = None, md_reference_normalized = None,
      md_source_document = None, md_extraction_confidence = None, md_category = None,
      md_price = None, md_currency = None, md_characteristics_count = None\<rparr>"

record chroma_results =
  res_ids :: "string list list"
  res_distances :: "rat list list"
  res_metadatas :: "chroma_metadata list list"
  res_documents :: "string list list"

datatype fval = FStr string | FNum rat

type_synonym filters = "(string \<times> fval) list"

datatype where_clause =
    Where_filters filters
  | Where_or_contains string string string string filters

record 'c backend =
  coll_add :: "'c \<Rightarrow> string list \<Rightarrow> chroma_metadata list \<Rightarrow> string list \<Rightarrow> exc + 'c"
  coll_query :: "'c \<Rightarrow> string \<Rightarrow> int \<Rightarrow> where_clause \<Rightarrow> exc + chroma_results"
  coll_get :: "'c \<Rightarrow> exc + (string list \<times> chroma_metadata list)"
  coll_count :: "'c \<Rightarrow> exc + nat"
  bm25_get_scores :: "string list list \<Rightarrow> string list \<Rightarrow> rat list"
  argsort :: "rat list \<Rightarrow> nat list"
  uuid4 :: "nat \<Rightarrow> string"

record 'c HybridRetriever =
  hr_collection :: 'c
  hr_bm25_index :: "string list list option"
  hr_documents :: "string list"
  hr_products :: "Product list"

record stats =
  total_documents :: nat
  bm25_enabled :: bool

subsection \<open>Python helpers\<close>

definition or_else :: "'a option \<Rightarrow> ('a \<Rightarrow> bool) \<Rightarrow> 'a \<Rightarrow> 'a" where
  \<comment> \<open>\<open>x or d\<close> for an optional \<open>x\<close> with the given truth test\<close>
  "or_else x truthy d = (case x of None \<Rightarrow> d | Some v \<Rightarrow> if truthy v then v else d)"

definition get_or :: "'a option \<Rightarrow> 'a \<Rightarrow> 'a" where
  \<comment> \<open>\<open>metadata.get(key, d)\<close>\<close>
  "get_or x d = (case x of None \<Rightarrow> d | Some v \<Rightarrow> v)"


definition index :: "'a list \<Rightarrow> nat \<Rightarrow> exc + 'a" where
  \<comment> \<open>\<open>xs[i]\<close> for \<open>i \<ge> 0\<close>\<close>
  "index xs i = (if i < length xs then Inr (xs ! i) else Inl IndexError)"

fun split_ws_loop :: "string \<Rightarrow> string \<Rightarrow> string list" where
  "split_ws_loop [] cur = (if cur = [] then [] else [rev cur])"
| "split_ws_loop (c # cs) cur =
     (if ch_isspace c then (if cur = [] then split_ws_loop cs [] else rev cur # split_ws_loop cs [])
      else split_ws_loop cs (c # cur))"

definition split_ws :: "string \<Rightarrow> string list" where
  \<comment> \<open>\<open>str.split()\<close>\<close>
  "split_ws s = split_ws_loop s []"

fun join :: "string \<Rightarrow> string list \<Rightarrow> string" where
  "join d [] = []"
| "join d [x] = x"
| "join d (x # xs) = x @ d @ join d xs"

subsection \<open>Products and metadata\<close>

definition reconstruct_product_from_metadata :: "chroma_metadata \<Rightarrow> string \<Rightarrow> exc + Product" where
  "reconstruct_product_from_metadata metadata document =
     (case new_ProductBrand (get_or (md_brand_name metadata) [])
             (get_or (md_brand_normalized metadata) []) [] 1.0 of
        Inl e \<Rightarrow> Inl e
      | Inr brand \<Rightarrow>
          (case new_ProductReference (get_or (md_reference metadata) [])
                  (get_or (md_reference_normalized metadata) []) None 1.0 of
             Inl e \<Rightarrow> Inl e
           | Inr reference \<Rightarrow>
               new_Product (md_product_id metadata) (get_or (md_product_name metadata) [])
                 brand reference [] (md_category metadata) (md_price metadata)
                 (Some (get_or (md_currency metadata) ''EUR'')) (md_source_document metadata)
                 (get_or (md_extraction_confidence metadata) 1.0)))"

definition characteristic_text :: "ProductCharacteristic \<Rightarrow> string" where
  "characteristic_text c =
     (let char_text = c_name c @ '': '' @ c_value c in
      case c_unit c of
        None \<Rightarrow> char_text
      | Some u \<Rightarrow> if u \<noteq> [] then char_text @ '' '' @ u else char_text)"

definition create_searchable_text :: "Product \<Rightarrow> string" where
  "create_searchable_text product =
     (let parts = [p_name product, b_name (p_brand product), r_reference (p_reference product)];
          parts = (case p_description product of
                     None \<Rightarrow> parts | Some d \<Rightarrow> if d \<noteq> [] then parts @ [d] else parts);
          parts = (case p_category product of
                     None \<Rightarrow> parts | Some c \<Rightarrow> if c \<noteq> [] then parts @ [c] else parts);
          parts = parts @ map characteristic_text (p_characteristics product)
      in join '' | '' (filter (\<lambda>part. part \<noteq> []) parts))"

definition product_metadata :: "Product \<Rightarrow> chroma_metadata" where
  "product_metadata product =
     \<lparr>md_product_id = p_id product,
      md_product_name = Some (p_name product),
      md_brand_name = Some (b_name (p_brand product)),
      md_brand_normalized = Some (b_normalized_name (p_brand product)),
      md_reference = Some (r_reference (p_reference product)),
      md_reference_normalized = Some (r_normalized_reference (p_reference product)),
      md_source_document = Some (or_else (p_source_document product) (\<lambda>x. x \<noteq> []) []),
      md_extraction_confidence = Some (p_extraction_confidence product),
      md_category = Some (or_else (p_category product) (\<lambda>x. x \<noteq> []) ''unknown''),
      md_price = Some (or_else (p_price product) (\<lambda>x. x \<noteq> 0) 0.0),
      md_currency = Some (or_else (p_currency product) (\<lambda>x. x \<noteq> []) ''EUR''),
      md_characteristics_count = Some (length (p_characteristics product))\<rparr>"

subsection \<open>Semantic search\<close>

type_synonym scored = "Product \<times> rat"

definition similarity_at :: "rat list \<Rightarrow> nat \<Rightarrow> exc + rat" where
  \<comment> \<open>\<open>1.0 - distances[i] if distances else 0.5\<close>\<close>
  "similarity_at distances i =
     (if distances \<noteq> []
      then (case index distances i of Inl e \<Rightarrow> Inl e | Inr d \<Rightarrow> Inr (1.0 - d))
      else Inr 0.5)"

definition product_at :: "chroma_metadata list \<Rightarrow> string list \<Rightarrow> nat \<Rightarrow> exc + Product" where
  \<comment> \<open>\<open>_reconstruct_product_from_metadata(metadatas[i], documents[i])\<close>\<close>
  "product_at metadatas docs i =
     (case index metadatas i of
        Inl e \<Rightarrow> Inl e
      | Inr metadata \<Rightarrow>
          (case index docs i of
             Inl e \<Rightarrow> Inl e
           | Inr document \<Rightarrow> reconstruct_product_from_metadata metadata document))"

fun process_loop :: "rat list \<Rightarrow> chroma_metadata list \<Rightarrow> string list \<Rightarrow> rat \<Rightarrow>
                     (nat \<times> string) list \<Rightarrow> scored list \<Rightarrow> exc + scored list" where
  "process_loop distances metadatas docs threshold [] processed_results = Inr processed_results"
| "process_loop distances metadatas docs threshold ((i, doc_id) # rest) processed_results =
     (case similarity_at distances i of
        Inl e \<Rightarrow> Inl e
      | Inr similarity \<Rightarrow>
          if similarity \<ge> threshold then
            (case product_at metadatas docs i of
               Inl e \<Rightarrow> Inl e
             | Inr product \<Rightarrow>
                 process_loop distances metadatas docs threshold rest
                   (processed_results @ [(product, similarity)]))
          else process_loop distances metadatas docs threshold rest processed_results)"

definition process_chroma_results :: "chroma_results \<Rightarrow> rat \<Rightarrow> exc + scored list" where
  "process_chroma_results results similarity_threshold =
     (case res_ids results of
        [] \<Rightarrow> Inr []
      | ids # _ \<Rightarrow>
          if ids = [] then Inr []
          else
            (let distances = (case res_distances results of
                                [] \<Rightarrow> replicate (length ids) 0.0 | d # _ \<Rightarrow> d);
                 metadatas = (case res_metadatas results of
                                [] \<Rightarrow> replicate (length ids) empty_metadata | m # _ \<Rightarrow> m);
                 docs = (case res_documents results of
                           [] \<Rightarrow> replicate (length ids) [] | d # _ \<Rightarrow> d)
             in process_loop distances metadatas docs similarity_threshold (enumerate 0 ids) []))"

definition filters_or_empty :: "filters option \<Rightarrow> filters" where
  \<comment> \<open>\<open>filters or {}\<close>\<close>
  "filters_or_empty fs = or_else fs (\<lambda>f. f \<noteq> []) []"

definition semantic_search ::
    "'c backend \<Rightarrow> 'c HybridRetriever \<Rightarrow> string \<Rightarrow> int \<Rightarrow> rat \<Rightarrow> filters option \<Rightarrow> exc + scored list" where
  "semantic_search be self query max_results similarity_threshold fs =
     (case coll_query be (hr_collection self) query max_results
             (Where_filters (filters_or_empty fs)) of
        Inl e \<Rightarrow> Inl e
      | Inr results \<Rightarrow> process_chroma_results results similarity_threshold)"

definition search_by_brand ::
    "'c backend \<Rightarrow> 'c HybridRetriever \<Rightarrow> string \<Rightarrow> int \<Rightarrow> rat \<Rightarrow> filters option \<Rightarrow> exc + scored list" where
  "search_by_brand be self query max_results similarity_threshold fs =
     (case coll_query be (hr_collection self) query max_results
             (Where_or_contains ''brand_name'' query ''brand_normalized'' (upper query)
                (filters_or_empty fs)) of
        Inl e \<Rightarrow> Inl e
      | Inr results \<Rightarrow> process_chroma_results results similarity_threshold)"

definition search_by_reference ::
    "'c backend \<Rightarrow> 'c HybridRetriever \<Rightarrow> string \<Rightarrow> int \<Rightarrow> rat \<Rightarrow> filters option \<Rightarrow> exc + scored list" where
  "search_by_reference be self query max_results similarity_threshold fs =
     (let normalized_query = filter (\<lambda>c. c \<noteq> CHR ''-'' \<and> c \<noteq> CHR '' '') (upper query) in
      case coll_query be (hr_collection self) query max_results
             (Where_or_contains ''reference'' query ''reference_normalized'' normalized_query
                (filters_or_empty fs)) of
        Inl e \<Rightarrow> Inl e
      | Inr results \<Rightarrow> process_chroma_results results similarity_threshold)"

definition search_by_characteristics ::
    "'c backend \<Rightarrow> 'c HybridRetriever \<Rightarrow> string \<Rightarrow> int \<Rightarrow> rat \<Rightarrow> filters option \<Rightarrow> exc + scored list" where
  "search_by_characteristics be self query max_results similarity_threshold fs =
     semantic_search be self query max_results 0.8 fs"

definition search_products ::
    "'c backend \<Rightarrow> 'c HybridRetriever \<Rightarrow> string \<Rightarrow> MatchingStage \<Rightarrow> int \<Rightarrow> rat \<Rightarrow> filters option \<Rightarrow>
     exc + scored list" where
  "search_products be self query stage max_results similarity_threshold fs =
     (case (case stage of
              BRAND_MATCHING \<Rightarrow> search_by_brand be self query max_results similarity_threshold fs
            | REFERENCE_MATCHING \<Rightarrow>
                search_by_reference be self query max_results similarity_threshold fs
            | CHARACTERISTIC_MATCHING \<Rightarrow>
                search_by_characteristics be self query max_results similarity_threshold fs) of
        Inl e \<Rightarrow> Inl (VectorStoreError ''SEARCH_ERROR'' e)
      | Inr results \<Rightarrow> Inr results)"

subsection \<open>Lexical search\<close>





subsection \<open>Fusion\<close>






subsection \<open>Adding products\<close>

fun reconstruct_all :: "(chroma_metadata \<times> string) list \<Rightarrow> exc + Product list" where
  "reconstruct_all [] = Inr []"
| "reconstruct_all ((meta, doc) # rest) =
     (case reconstruct_product_from_metadata meta doc of
        Inl e \<Rightarrow> Inl e
      | Inr product \<Rightarrow>
          (case reconstruct_all rest of Inl e \<Rightarrow> Inl e | Inr ps \<Rightarrow> Inr (product # ps)))"

definition update_bm25_index :: "'c backend \<Rightarrow> 'c HybridRetriever \<Rightarrow> 'c HybridRetriever" where
  \<comment> \<open>every exception inside is caught and logged; the assignments made before it stay\<close>
  "update_bm25_index be self =
     (case coll_get be (hr_collection self) of
        Inl e \<Rightarrow> self
      | Inr (docs, metas) \<Rightarrow>
          if docs \<noteq> [] then
            (let tokenized_docs = map (\<lambda>doc. split_ws (lower doc)) docs;
                 self = self\<lparr>hr_bm25_index := Some tokenized_docs, hr_documents := docs\<rparr>
             in case reconstruct_all (zip metas docs) of
                  Inl e \<Rightarrow> self
                | Inr ps \<Rightarrow> self\<lparr>hr_products := ps\<rparr>)
          else self)"

definition doc_id :: "'c backend \<Rightarrow> nat \<Rightarrow> Product \<Rightarrow> string" where
  \<comment> \<open>\<open>product.id or str(uuid.uuid4())\<close>\<close>
  "doc_id be i product = or_else (p_id product) (\<lambda>x. x \<noteq> []) (uuid4 be i)"

definition add_products ::
    "'c backend \<Rightarrow> 'c HybridRetriever \<Rightarrow> Product list \<Rightarrow> (exc + unit) \<times> 'c HybridRetriever" where
  "add_products be self prods =
     (if prods = [] then (Inr (), self)
      else
        (let docs = map create_searchable_text prods;
             metadatas = map product_metadata prods;
             ids = map (\<lambda>(i, product). doc_id be i product) (enumerate 0 prods)
         in case coll_add be (hr_collection self) docs metadatas ids of
              Inl e \<Rightarrow> (Inl (VectorStoreError ''ADD_PRODUCTS_ERROR'' e), self)
            | Inr c \<Rightarrow> (Inr (), update_bm25_index be (self\<lparr>hr_collection := c\<rparr>))))"

definition get_stats :: "'c backend \<Rightarrow> 'c HybridRetriever \<Rightarrow> exc + stats" where
  "get_stats be self =
     (case coll_count be (hr_collection self) of
        Inl e \<Rightarrow> Inl e
      | Inr count \<Rightarrow>
          Inr \<lparr>total_documents = count, bm25_enabled = (hr_bm25_index self \<noteq> None)\<rparr>)"

section \<open>Definitions used by the statements\<close>


definition demo_backend :: "unit backend" where
  \<comment> \<open>a vector store that answers every query with two documents at distances 0.1 and 0.5\<close>
  "demo_backend =
     \<lparr>coll_add = (\<lambda>c docs metas ids. Inr c),
      coll_query = (\<lambda>c q n w. Inr \<lparr>res_ids = [[''a'', ''b'']], res_distances = [[0.1, 0.5]],
                                     res_metadatas = [], res_documents = []\<rparr>),
      coll_get = (\<lambda>c. Inr ([], [])),
      coll_count = (\<lambda>c. Inr 0),
      bm25_get_scores = (\<lambda>corpus q. []),
      argsort = (\<lambda>scores. []),
      uuid4 = (\<lambda>i. ''u'')\<rparr>"

definition demo_retriever :: "unit HybridRetriever" where
  "demo_retriever = \<lparr>hr_collection = (), hr_bm25_index = None, hr_documents = [], hr_products = []\<rparr>"

definition demo_product :: "string option \<Rightarrow> Product" where
  \<comment> \<open>the product rebuilt from a metadata dictionary that only has a product id\<close>
  "demo_product i =
     \<lparr>p_id = i, p_name = [],
      p_brand = \<lparr>b_name = [], b_normalized_name = [], b_aliases = [], b_confidence = 1\<rparr>,
      p_reference = \<lparr>r_reference = [], r_normalized_reference = [], r_format_pattern = None,
                     r_confidence = 1\<rparr>,
      p_characteristics = [], p_description = None, p_category = None, p_price = None,
      p_currency = Some ''EUR'', p_source_document = None, p_extraction_confidence = 1\<rparr>"

definition demo_document :: string where
  \<comment> \<open>49 characters, a rule line, 50 characters\<close>
  "demo_document =
     replicate 49 CHR ''a'' @ [CHR 0x0A] @ ''---'' @ [CHR 0x0A] @ replicate 50 CHR ''b''"


definition occurrences_of :: "string \<Rightarrow> string \<Rightarrow> nat" where
  \<comment> \<open>\<open>len(re.findall(re.escape(brand), text, re.IGNORECASE))\<close>: the occurrences of the
      brand in the text, without regard to case, counted from left to right without
      overlap\<close>
  "occurrences_of brand text = length (findall True (re_escape brand) text)"

definition brand_boost :: "nat \<Rightarrow> bool \<Rightarrow> rat" where
  \<comment> \<open>the boost of the source: 0.1 for every occurrence, the first one included\<close>
  "brand_boost occurrences upper_case =
     min (0.5 + min (of_nat occurrences * 0.1) 0.3 + (if upper_case then 0.1 else 0)) 1"









definition caps_or_space :: "char \<Rightarrow> bool" where
  \<comment> \<open>a letter \<open>A\<close> to \<open>Z\<close> or a white space character\<close>
  "caps_or_space c = (between 65 90 (ord c) \<or> ch_isspace c)"

definition enumerated :: "string \<Rightarrow> bool" where
  \<comment> \<open>the line begins with decimal digits followed by a full stop or a closing bracket\<close>
  "enumerated line =
     (\<exists>ds c rest. line = ds @ c # rest \<and> ds \<noteq> [] \<and> list_all ch_isdecimal ds \<and>
        (c = CHR ''.'' \<or> c = CHR '')''))"

definition name_like :: "string \<Rightarrow> bool" where
  \<comment> \<open>the test of the first loop of \<open>_extract_product_name\<close> on a stripped line\<close>
  "name_like line = (10 < length line \<and> length line < 100 \<and> \<not> looks_like_metadata line)"

definition advance :: "nat \<Rightarrow> mstate \<Rightarrow> mstate" where
  \<comment> \<open>the matcher state after \<open>n\<close> more characters of the text\<close>
  "advance n st =
     (case st of (p, s, g, opn) \<Rightarrow>
        (if n = 0 then p else Some (s ! (n - 1)), drop n s, g, map (\<lambda>a. rev (take n s) @ a) opn))"

definition demo_lines :: string where
  "demo_lines =
     ''1. abcdefghijkl'' @ [CHR 0x0A] @ ''ABC DEF GHI JKL'' @ [CHR 0x0A] @ ''Perceuse BOSCH''"




definition scenario_lines :: string where
  \<comment> \<open>the three fields of the scenario on three lines\<close>
  "scenario_lines =
     ''Marque: BOSCH'' @ [CHR 0x0A] @ ''R'' @ [e_acute] @ ''f'' @ [e_acute] @ ''rence: GSB120-LI'' @
     [CHR 0x0A] @ ''Puissance: 120W''"



section \<open>Evaluation of the character classes\<close>

text \<open>
  The character classes are defined by ranges of code points. To evaluate the matcher
  on a concrete text, each class is also given as a test on the eight bits of a
  character (\<open>b0\<close> the lowest), proved equal to its definition for all 256 characters.
\<close>

lemma ch_isspace_Char [code]:
  "ch_isspace (Char b0 b1 b2 b3 b4 b5 b6 b7) \<longleftrightarrow> (if b7 then (\<not> b6 \<and> (if b5 then (\<not> b4 \<and> (\<not> b3 \<and> (\<not> b2 \<and> (\<not> b1 \<and> \<not> b0)))) else (\<not> b4 \<and> (\<not> b3 \<and> (b2 \<and> (\<not> b1 \<and> b0)))))) else (\<not> b6 \<and> (if b5 then (\<not> b4 \<and> (\<not> b3 \<and> (\<not> b2 \<and> (\<not> b1 \<and> \<not> b0)))) else (if b4 then (b3 \<and> b2) else (b3 \<and> (if b2 then \<not> b1 else (b1 \<or> b0)))))))"
  by (cases b0; cases b1; cases b2; cases b3; cases b4; cases b5; cases b6; cases b7; simp add: ch_isspace_def between_def ord_def)

lemma ch_isdecimal_Char [code]:
  "ch_isdecimal (Char b0 b1 b2 b3 b4 b5 b6 b7) \<longleftrightarrow> (\<not> b7 \<and> (\<not> b6 \<and> (b5 \<and> (b4 \<and> (\<not> b3 \<or> (\<not> b2 \<and> \<not> b1))))))"
  by (cases b0; cases b1; cases b2; cases b3; cases b4; cases b5; cases b6; cases b7; simp add: ch_isdecimal_def between_def ord_def)

lemma ch_isdigit_Char [code]:
  "ch_isdigit (Char b0 b1 b2 b3 b4 b5 b6 b7) \<longleftrightarrow> (if b7 then (\<not> b6 \<and> (b5 \<and> (b4 \<and> (if b3 then (\<not> b2 \<and> (\<not> b1 \<and> b0)) else (\<not> b2 \<and> b1))))) else (\<not> b6 \<and> (b5 \<and> (b4 \<and> (\<not> b3 \<or> (\<not> b2 \<and> \<not> b1))))))"
  by (cases b0; cases b1; cases b2; cases b3; cases b4; cases b5; cases b6; cases b7; simp add: ch_isdigit_def between_def ord_def)

lemma ch_isupper_Char [code]:
  "ch_isupper (Char b0 b1 b2 b3 b4 b5 b6 b7) \<longleftrightarrow> (if b7 then (b6 \<and> (\<not> b5 \<and> (\<not> b4 \<or> (\<not> b2 \<or> (\<not> b1 \<or> \<not> b0))))) else (b6 \<and> (\<not> b5 \<and> (if b4 then (\<not> b3 \<or> (\<not> b2 \<and> (\<not> b1 \<or> \<not> b0))) else (b3 \<or> (b2 \<or> (b1 \<or> b0)))))))"
  by (cases b0; cases b1; cases b2; cases b3; cases b4; cases b5; cases b6; cases b7; simp add: ch_isupper_def between_def ord_def)

lemma ch_islower_Char [code]:
  "ch_islower (Char b0 b1 b2 b3 b4 b5 b6 b7) \<longleftrightarrow> (if b7 then (if b6 then (if b5 then (\<not> b4 \<or> (b3 \<or> (\<not> b2 \<or> (\<not> b1 \<or> \<not> b0)))) else (b4 \<and> (b3 \<and> (b2 \<and> (b1 \<and> b0))))) else (b5 \<and> (if b4 then (if b3 then (\<not> b2 \<and> (b1 \<and> \<not> b0)) else (b2 \<and> (\<not> b1 \<and> b0))) else (b3 \<and> (\<not> b2 \<and> (b1 \<and> \<not> b0)))))) else (b6 \<and> (b5 \<and> (if b4 then (\<not> b3 \<or> (\<not> b2 \<and> (\<not> b1 \<or> \<not> b0))) else (b3 \<or> (b2 \<or> (b1 \<or> b0)))))))"
  by (cases b0; cases b1; cases b2; cases b3; cases b4; cases b5; cases b6; cases b7; simp add: ch_islower_def between_def ord_def)

lemma ch_isword_Char [code]:
  "ch_isword (Char b0 b1 b2 b3 b4 b5 b6 b7) \<longleftrightarrow> (if b7 then (if b6 then (\<not> b4 \<or> (b3 \<or> (\<not> b2 \<or> (\<not> b1 \<or> \<not> b0)))) else (b5 \<and> (if b4 then (if b3 then (if b2 then (\<not> b1 \<or> \<not> b0) else (if b1 then \<not> b0 else b0)) else (if b2 then (\<not> b1 \<and> b0) else b1)) else (b3 \<and> (\<not> b2 \<and> (b1 \<and> \<not> b0)))))) else (if b6 then (if b5 then (if b4 then (\<not> b3 \<or> (\<not> b2 \<and> (\<not> b1 \<or> \<not> b0))) else (b3 \<or> (b2 \<or> (b1 \<or> b0)))) else (if b4 then (\<not> b3 \<or> (if b2 then (b1 \<and> b0) else (\<not> b1 \<or> \<not> b0))) else (b3 \<or> (b2 \<or> (b1 \<or> b0))))) else (b5 \<and> (b4 \<and> (\<not> b3 \<or> (\<not> b2 \<and> \<not> b1))))))"
  by (cases b0; cases b1; cases b2; cases b3; cases b4; cases b5; cases b6; cases b7; simp add: ch_isword_def ch_isalpha_def ch_isnumeric_def ch_isdigit_def ch_isupper_def ch_islower_def between_def ord_def)

lemma ch_lower_Char [code]:
  "ch_lower (Char b0 b1 b2 b3 b4 b5 b6 b7) = (if ch_isupper (Char b0 b1 b2 b3 b4 b5 b6 b7) then Char b0 b1 b2 b3 b4 True b6 b7 else Char b0 b1 b2 b3 b4 b5 b6 b7)"
  by (cases b0; cases b1; cases b2; cases b3; cases b4; cases b5; cases b6; cases b7; simp add: ch_lower_def chr_def char_of_def bit_Suc_0_iff ch_isupper_def between_def ord_def)

lemma ch_upper1_Char [code]:
  "ch_upper1 (Char b0 b1 b2 b3 b4 b5 b6 b7) = (if (if b7 then (b6 \<and> (b5 \<and> (\<not> b4 \<or> (\<not> b2 \<or> (\<not> b1 \<or> \<not> b0))))) else (b6 \<and> (b5 \<and> (if b4 then (\<not> b3 \<or> (\<not> b2 \<and> (\<not> b1 \<or> \<not> b0))) else (b3 \<or> (b2 \<or> (b1 \<or> b0))))))) then Char b0 b1 b2 b3 b4 False b6 b7 else Char b0 b1 b2 b3 b4 b5 b6 b7)"
  by (cases b0; cases b1; cases b2; cases b3; cases b4; cases b5; cases b6; cases b7; simp add: ch_upper1_def chr_def char_of_def bit_Suc_0_iff between_def ord_def)

lemma item_match_A_Z:
  "item_match ic A_Z (Char b0 b1 b2 b3 b4 b5 b6 b7) \<longleftrightarrow> (if ic then (\<not> b7 \<and> (b6 \<and> (if b4 then (\<not> b3 \<or> (\<not> b2 \<and> (\<not> b1 \<or> \<not> b0))) else (b3 \<or> (b2 \<or> (b1 \<or> b0)))))) else (\<not> b7 \<and> (b6 \<and> (\<not> b5 \<and> (if b4 then (\<not> b3 \<or> (\<not> b2 \<and> (\<not> b1 \<or> \<not> b0))) else (b3 \<or> (b2 \<or> (b1 \<or> b0))))))))"
  by (cases b0; cases b1; cases b2; cases b3; cases b4; cases b5; cases b6; cases b7; simp add: ch_upper1_def chr_def char_of_def bit_Suc_0_iff between_def ord_def)

lemma item_match_a_z:
  "item_match ic a_z (Char b0 b1 b2 b3 b4 b5 b6 b7) \<longleftrightarrow> (\<not> b7 \<and> (b6 \<and> (b5 \<and> (if b4 then (\<not> b3 \<or> (\<not> b2 \<and> (\<not> b1 \<or> \<not> b0))) else (b3 \<or> (b2 \<or> (b1 \<or> b0)))))))"
  by (cases b0; cases b1; cases b2; cases b3; cases b4; cases b5; cases b6; cases b7; simp add: ch_upper1_def chr_def char_of_def bit_Suc_0_iff between_def ord_def)

lemma item_match_d0_9:
  "item_match ic d0_9 (Char b0 b1 b2 b3 b4 b5 b6 b7) \<longleftrightarrow> (\<not> b7 \<and> (\<not> b6 \<and> (b5 \<and> (b4 \<and> (\<not> b3 \<or> (\<not> b2 \<and> \<not> b1))))))"
  by (cases b0; cases b1; cases b2; cases b3; cases b4; cases b5; cases b6; cases b7; simp add: ch_upper1_def chr_def char_of_def bit_Suc_0_iff between_def ord_def)

lemmas item_match_code [code] =
  item_match.simps(1) item_match_A_Z item_match_a_z item_match_d0_9 item_match.simps(3-5)


section \<open>Properties\<close>

subsection \<open>Adding nothing\<close>

text \<open>
  C10. Adding an empty sequence of products returns at once: the retriever, with its
  collection and its lexical index, is the one before the call, no operation of the
  vector store is called, and the statistics read afterwards are the ones read before.
\<close>

theorem add_products_empty_noop:
  "add_products be self [] = (Inr (), self) \<and>
   hr_collection (snd (add_products be self [])) = hr_collection self \<and>
   hr_bm25_index (snd (add_products be self [])) = hr_bm25_index self \<and>
   get_stats be (snd (add_products be self [])) = get_stats be self"
  by (simp add: add_products_def)

subsection \<open>The threshold of the characteristic stage\<close>

lemma process_loop_threshold:
  "process_loop ds ms docs thr ids acc = Inr rs \<Longrightarrow> \<forall>(p, s) \<in> set acc. thr \<le> s \<Longrightarrow>
   \<forall>(p, s) \<in> set rs. thr \<le> s"
proof (induction ids arbitrary: acc)
  case Nil
  then show ?case by simp
next
  case (Cons a ids)
  obtain i d where a: "a = (i, d)" by (cases a)
  from Cons.prems(1) obtain x where x: "similarity_at ds i = Inr x"
    unfolding a by (auto split: sum.splits)
  show ?case
  proof (cases "thr \<le> x")
    case True
    with Cons.prems(1) x obtain pr where
      "process_loop ds ms docs thr ids (acc @ [(pr, x)]) = Inr rs"
      unfolding a by (auto split: sum.splits)
    moreover have "\<forall>(p, s) \<in> set (acc @ [(pr, x)]). thr \<le> s"
      using Cons.prems(2) True by auto
    ultimately show ?thesis by (rule Cons.IH)
  next
    case False
    with Cons.prems(1) x have "process_loop ds ms docs thr ids acc = Inr rs"
      unfolding a by simp
    then show ?thesis using Cons.prems(2) by (rule Cons.IH)
  qed
qed

lemma process_chroma_results_threshold:
  "process_chroma_results results thr = Inr rs \<Longrightarrow> (p, s) \<in> set rs \<Longrightarrow> thr \<le> s"
  unfolding process_chroma_results_def
  by (auto split: list.splits if_splits dest!: process_loop_threshold simp: Let_def)

text \<open>
  C2. A search at the stage \<open>CHARACTERISTIC_MATCHING\<close> does not depend on the threshold
  the caller passes, and every result it returns has a similarity of at least 0.8,
  for every query, number of results, filter set and vector store.
\<close>

theorem characteristic_matching_threshold:
  "search_products be self query CHARACTERISTIC_MATCHING max_results thr fs =
     search_products be self query CHARACTERISTIC_MATCHING max_results thr' fs \<and>
   (\<forall>results. search_products be self query CHARACTERISTIC_MATCHING max_results thr fs = Inr results
      \<longrightarrow> (\<forall>(p, s) \<in> set results. 0.8 \<le> s))"
  unfolding search_products_def search_by_characteristics_def semantic_search_def
  by (auto split: sum.splits dest: process_chroma_results_threshold)

theorem characteristic_matching_threshold_witness:
  "search_products demo_backend demo_retriever ''q'' CHARACTERISTIC_MATCHING 10 0.3 None =
     Inr [(demo_product None, 0.9)] \<and>
   search_products demo_backend demo_retriever ''q'' CHARACTERISTIC_MATCHING 10 0.3 None =
     search_products demo_backend demo_retriever ''q'' CHARACTERISTIC_MATCHING 10 0.95 None \<and>
   list_all (\<lambda>(p, s). 0.8 \<le> s) [(demo_product None, 0.9::rat)]"
proof -
  have h: "search_products demo_backend demo_retriever ''q'' CHARACTERISTIC_MATCHING 10 0.3 None =
     Inr [(demo_product None, 0.9)]"
    by (simp add: search_products_def search_by_characteristics_def semantic_search_def
        demo_backend_def demo_retriever_def process_chroma_results_def similarity_at_def
        product_at_def index_def reconstruct_product_from_metadata_def new_ProductBrand_def
        new_ProductReference_def new_Product_def in_unit_def get_or_def empty_metadata_def
        demo_product_def enumerate_eq_zip upt_rec)
  from characteristic_matching_threshold
    [of demo_backend demo_retriever "''q''" 10 "0.3" None "0.95"] h
  show ?thesis by simp
qed

subsection \<open>A failing section\<close>




subsection \<open>The sections of a document\<close>

text \<open>
  C4. For every text the splitter returns at least one section. Either every section it
  returns has between 50 and 2000 characters, or it returns the text alone. Of the
  sections the cascade of the four separators produces, each one with 50 to 2000
  characters (50 and 2000 included) is returned, and one with fewer than 50 (49, say) or
  more than 2000 is not, unless the text itself is returned because no section has 50 to
  2000 characters.
\<close>

theorem split_sections_bounds:
  "split_into_product_sections text \<noteq> [] \<and>
   ((\<forall>s \<in> set (split_into_product_sections text). 50 \<le> length s \<and> length s \<le> 2000) \<or>
    split_into_product_sections text = [text]) \<and>
   (\<forall>s \<in> set (cascade split_patterns [text]).
      (50 \<le> length s \<and> length s \<le> 2000 \<longrightarrow> s \<in> set (split_into_product_sections text)) \<and>
      (length s < 50 \<or> 2000 < length s \<longrightarrow>
         s \<notin> set (split_into_product_sections text) \<or> split_into_product_sections text = [text])) \<and>
   (filter (\<lambda>s. 50 \<le> length s \<and> length s \<le> 2000) (cascade split_patterns [text]) = [] \<longrightarrow>
      split_into_product_sections text = [text])"
  by (auto simp: split_into_product_sections_def Let_def filter_empty_conv)

lemma demo_cascade: "cascade split_patterns [demo_document] = [replicate 49 CHR ''a'', replicate 50 CHR ''b'']"
  unfolding demo_document_def by code_simp

lemma demo_split: "split_into_product_sections demo_document = [replicate 50 CHR ''b'']"
  unfolding demo_document_def by code_simp

theorem split_sections_bounds_witness:
  "cascade split_patterns [demo_document] = [replicate 49 CHR ''a'', replicate 50 CHR ''b''] \<and>
   split_into_product_sections demo_document = [replicate 50 CHR ''b''] \<and>
   length (replicate 49 CHR ''a'') = 49 \<and> length (replicate 50 CHR ''b'') = 50 \<and>
   replicate 50 CHR ''b'' \<in> set (split_into_product_sections demo_document) \<and>
   replicate 49 CHR ''a'' \<notin> set (split_into_product_sections demo_document)"
  using split_sections_bounds [of demo_document] demo_cascade demo_split
  by simp

subsection \<open>The products of an extraction\<close>








subsection \<open>The confidence of a brand\<close>

lemma matches_loop_set:
  "matches_loop f ms acc = Inr out \<Longrightarrow> b \<in> set out \<Longrightarrow>
   b \<in> set acc \<or> (\<exists>m \<in> set ms. f m = Inr (Some b))"
proof (induction ms arbitrary: acc)
  case Nil
  then show ?case by simp
next
  case (Cons m ms)
  show ?case
  proof (cases "f m")
    case (Inl e)
    with Cons.prems show ?thesis by simp
  next
    case (Inr r)
    show ?thesis
    proof (cases r)
      case None
      with Inr Cons.prems have "matches_loop f ms acc = Inr out" by simp
      from Cons.IH[OF this Cons.prems(2)] show ?thesis by auto
    next
      case (Some x)
      with Inr Cons.prems have "matches_loop f ms (acc @ [x]) = Inr out" by simp
      from Cons.IH[OF this Cons.prems(2)] Inr Some show ?thesis by auto
    qed
  qed
qed

lemma patterns_loop_set:
  "patterns_loop f text ps acc = Inr out \<Longrightarrow> b \<in> set out \<Longrightarrow>
   b \<in> set acc \<or>
   (\<exists>p \<in> set ps. \<exists>m \<in> set (finditer (pat_ic p) (pattern p) text). f p m = Inr (Some b))"
proof (induction ps arbitrary: acc)
  case Nil
  then show ?case by simp
next
  case (Cons p ps)
  from Cons.prems(1) obtain acc' where
    a: "matches_loop (f p) (finditer (pat_ic p) (pattern p) text) acc = Inr acc'" and
    b: "patterns_loop f text ps acc' = Inr out"
    by (auto split: sum.splits)
  from Cons.IH[OF b Cons.prems(2)] show ?case
  proof
    assume "b \<in> set acc'"
    from matches_loop_set[OF a this] show ?thesis by auto
  next
    assume "\<exists>p\<in>set ps. \<exists>m\<in>set (finditer (pat_ic p) (pattern p) text). f p m = Inr (Some b)"
    then show ?thesis by auto
  qed
qed

lemma dedup_loop_set: "set (dedup_loop key xs seen uq) \<subseteq> set uq \<union> set xs"
  by (induction xs arbitrary: seen uq) (auto split: if_splits, fastforce+)

lemma extract_brands_origin:
  assumes "extract_brands text = Inr bs" and "b \<in> set bs"
  shows "\<exists>p \<in> set load_brand_patterns. \<exists>m \<in> set (finditer (pat_ic p) (pattern p) text).
           brand_of_match text p m = Inr (Some b)"
proof -
  from assms(1) obtain cands where
    c: "patterns_loop (brand_of_match text) text load_brand_patterns [] = Inr cands" and
    bs: "bs = take 3 (sort_key (\<lambda>x. - b_confidence x) (deduplicate_brands cands))"
    by (auto simp: extract_brands_def split: sum.splits)
  from assms(2) bs have "b \<in> set (deduplicate_brands cands)"
    by (auto dest: in_set_takeD)
  then have "b \<in> set cands"
    using dedup_loop_set[of b_normalized_name cands "{}" "[]"] by (auto simp: deduplicate_brands_def)
  from patterns_loop_set[OF c this] show ?thesis by simp
qed

lemma brand_of_match_confidence:
  "brand_of_match text p m = Inr (Some b) \<Longrightarrow>
   b_confidence b = confidence_modifier p * brand_boost (occurrences_of (b_name b) text) (isupper (b_name b))
   \<and> is_valid_brand (b_name b) \<and> in_unit (b_confidence b)"
  by (auto simp: brand_of_match_def new_ProductBrand_def calculate_brand_confidence_def
      brand_boost_def occurrences_of_def Let_def split: option.splits if_splits)









subsection \<open>The range of the confidences\<close>

lemma matches_loop_error:
  "matches_loop f ms acc = Inl e \<Longrightarrow> \<exists>m \<in> set ms. f m = Inl e"
proof (induction ms arbitrary: acc)
  case Nil
  then show ?case by simp
next
  case (Cons m ms)
  show ?case
  proof (cases "f m")
    case (Inl x)
    with Cons.prems show ?thesis by simp
  next
    case (Inr r)
    with Cons.prems Cons.IH show ?thesis by (cases r) auto
  qed
qed

lemma patterns_loop_error:
  "patterns_loop f text ps acc = Inl e \<Longrightarrow>
   \<exists>p \<in> set ps. \<exists>m \<in> set (finditer (pat_ic p) (pattern p) text). f p m = Inl e"
proof (induction ps arbitrary: acc)
  case Nil
  then show ?case by simp
next
  case (Cons p ps)
  show ?case
  proof (cases "matches_loop (f p) (finditer (pat_ic p) (pattern p) text) acc")
    case (Inl x)
    with Cons.prems have "x = e" by simp
    with Inl matches_loop_error[of "f p" _ acc e] show ?thesis by auto
  next
    case (Inr acc')
    with Cons.prems have "patterns_loop f text ps acc' = Inl e" by simp
    from Cons.IH[OF this] show ?thesis by auto
  qed
qed

lemma brand_confidence_range:
  "1 / 2 \<le> calculate_brand_confidence brand text \<and> calculate_brand_confidence brand text \<le> 1"
  by (simp add: calculate_brand_confidence_def Let_def min_def)

lemma reference_confidence_range:
  "1 / 2 \<le> calculate_reference_confidence reference text \<and>
   calculate_reference_confidence reference text \<le> 1"
  by (simp add: calculate_reference_confidence_def Let_def min_def)

lemma brand_modifiers:
  "p \<in> set load_brand_patterns \<Longrightarrow> 0 \<le> confidence_modifier p \<and> confidence_modifier p \<le> 1"
  by (auto simp: load_brand_patterns_def pat_def)

lemma reference_modifiers:
  "p \<in> set load_reference_patterns \<Longrightarrow> 0 \<le> confidence_modifier p \<and> confidence_modifier p \<le> 1"
  by (auto simp: load_reference_patterns_def pat_def)

lemma product_in_unit:
  fixes m c :: rat
  assumes "0 \<le> m" "m \<le> 1" "1 / 2 \<le> c" "c \<le> 1"
  shows "in_unit (m * c)"
proof -
  have "0 \<le> m * c" using assms by simp
  moreover have "m * c \<le> 1 * 1" using assms by (intro mult_mono) simp_all
  ultimately show ?thesis by (simp add: in_unit_def)
qed

lemma brand_of_match_error:
  assumes "p \<in> set load_brand_patterns" and "brand_of_match text p m = Inl e"
  shows "e = AttributeError"
proof -
  have "\<And>b. in_unit (confidence_modifier p * calculate_brand_confidence b text)"
    using brand_modifiers[OF assms(1)] brand_confidence_range product_in_unit by blast
  with assms(2) show ?thesis
    by (auto simp: brand_of_match_def new_ProductBrand_def Let_def split: option.splits if_splits)
qed

lemma reference_of_match_error:
  assumes "p \<in> set load_reference_patterns" and "reference_of_match text p m = Inl e"
  shows "e = AttributeError"
proof -
  have "\<And>r. in_unit (confidence_modifier p * calculate_reference_confidence r text)"
    using reference_modifiers[OF assms(1)] reference_confidence_range product_in_unit by blast
  with assms(2) show ?thesis
    by (auto simp: reference_of_match_def new_ProductReference_def Let_def
        split: option.splits if_splits)
qed

lemma characteristic_of_match_error:
  "characteristic_of_match p m = Inl e \<Longrightarrow> e = AttributeError"
  by (auto simp: characteristic_of_match_def Let_def
      split: if_splits option.splits sum.splits prod.splits)

lemma extract_brands_error: "extract_brands text = Inl e \<Longrightarrow> e = AttributeError"
  by (auto simp: extract_brands_def split: sum.splits
      dest!: patterns_loop_error dest: brand_of_match_error)

lemma extract_references_error: "extract_references text = Inl e \<Longrightarrow> e = AttributeError"
  by (auto simp: extract_references_def split: sum.splits
      dest!: patterns_loop_error dest: reference_of_match_error)

lemma extract_characteristics_error: "extract_characteristics text = Inl e \<Longrightarrow> e = AttributeError"
  by (auto simp: extract_characteristics_def split: sum.splits
      dest!: patterns_loop_error dest: characteristic_of_match_error)

lemma reference_of_match_unit:
  "reference_of_match text p m = Inr (Some r) \<Longrightarrow> in_unit (r_confidence r)"
  by (auto simp: reference_of_match_def new_ProductReference_def Let_def
      split: option.splits if_splits)

lemma extract_references_origin:
  assumes "extract_references text = Inr rs" and "r \<in> set rs"
  shows "\<exists>p \<in> set load_reference_patterns. \<exists>m \<in> set (finditer (pat_ic p) (pattern p) text).
           reference_of_match text p m = Inr (Some r)"
proof -
  from assms(1) obtain cands where
    c: "patterns_loop (reference_of_match text) text load_reference_patterns [] = Inr cands" and
    rs: "rs = take 3 (sort_key (\<lambda>x. - r_confidence x) (deduplicate_references cands))"
    by (auto simp: extract_references_def split: sum.splits)
  from assms(2) rs have "r \<in> set (deduplicate_references cands)"
    by (auto dest: in_set_takeD)
  then have "r \<in> set cands"
    using dedup_loop_set[of r_normalized_reference cands "{}" "[]"]
    by (auto simp: deduplicate_references_def)
  from patterns_loop_set[OF c this] show ?thesis by simp
qed

lemma confidence_in_unit:
  assumes "in_unit (b_confidence b)" and "in_unit (r_confidence r)"
  shows "in_unit (calculate_extraction_confidence (b # bs) (r # rs) cs)"
  using assms by (auto simp: calculate_extraction_confidence_def in_unit_def Let_def min_def)

text \<open>
  The validation of the three confidences never rejects a candidate or a product: each
  modifier of the pattern library lies between 0 and 1, each boost between 0.5 and 1,
  and the weights of the global confidence sum to 1. The only error the extraction of a
  section can raise is therefore the \<open>AttributeError\<close> of a group that did not take
  part in a match.
\<close>

lemma extract_single_product_error:
  assumes "extract_single_product gen_id text source i = Inl e"
  shows "e = AttributeError"
proof (cases "extract_brands text")
  case (Inl x)
  with assms extract_brands_error[of _ x] show ?thesis
    by (simp add: extract_single_product_def)
next
  case (Inr bs)
  note b = this
  show ?thesis
  proof (cases bs)
    case Nil
    with b assms show ?thesis by (simp add: extract_single_product_def)
  next
    case (Cons b0 bs')
    note bc = this
    show ?thesis
    proof (cases "extract_references text")
      case (Inl x)
      with assms b bc extract_references_error[of _ x] show ?thesis
        by (simp add: extract_single_product_def)
    next
      case (Inr rs)
      note r = this
      show ?thesis
      proof (cases rs)
        case Nil
        with b bc r assms show ?thesis by (simp add: extract_single_product_def)
      next
        case (Cons r0 rs')
        note rc = this
        show ?thesis
        proof (cases "extract_characteristics text")
          case (Inl x)
          with assms b bc r rc extract_characteristics_error[of _ x] show ?thesis
            by (simp add: extract_single_product_def)
        next
          case (Inr cs)
          have "in_unit (b_confidence b0)"
            using extract_brands_origin[OF b, of b0] bc brand_of_match_confidence by auto
          moreover have "in_unit (r_confidence r0)"
            using extract_references_origin[OF r, of r0] rc reference_of_match_unit by auto
          ultimately have "in_unit (calculate_extraction_confidence (b0 # bs') (r0 # rs') cs)"
            by (rule confidence_in_unit)
          with assms b bc r rc Inr show ?thesis
            by (simp add: extract_single_product_def new_Product_def Let_def)
        qed
      qed
    qed
  qed
qed


subsection \<open>Fusion of semantic and lexical results\<close>






















subsection \<open>Deduplication of brands\<close>















subsection \<open>The name of a product\<close>

lemma advance_0: "advance 0 (p, s, g, opn) = (p, s, g, opn)"
  by (simp add: advance_def)

lemma advance_Suc:
  "advance (Suc m) (p, c # cs, g, opn) = advance m (consume c cs g opn)"
  by (cases m) (simp_all add: advance_def consume_def)

lemma rep_class:
  "rep (\<lambda>st k. rmatch ic (Cls neg items) st k) s lo None (p, s, g, opn) K \<noteq> None \<longleftrightarrow>
   (\<exists>n. lo \<le> n \<and> n \<le> length (takeWhile (cls_match ic neg items) s) \<and>
        K (advance n (p, s, g, opn)) \<noteq> None)"
proof (induction s arbitrary: p lo opn)
  case Nil
  show ?case by (auto simp: advance_0)
next
  case (Cons c cs)
  let ?P = "cls_match ic neg items"
  let ?B = "\<lambda>st k. rmatch ic (Cls neg items) st k"
  show ?case
  proof (cases "?P c")
    case False
    then show ?thesis by (auto simp: advance_0)
  next
    case True
    have ne: "cs \<noteq> c # cs" by simp
    have step: "rep ?B (c # cs) lo None (p, c # cs, g, opn) K =
        (case rep ?B cs (lo - 1) None (Some c, cs, g, map ((#) c) opn) K of
           Some r \<Rightarrow> Some r
         | None \<Rightarrow> if lo = 0 then K (p, c # cs, g, opn) else None)"
      using True by (simp add: consume_def dec_opt_def)
    have step': "rep ?B (c # cs) lo None (p, c # cs, g, opn) K \<noteq> None \<longleftrightarrow>
        rep ?B cs (lo - 1) None (Some c, cs, g, map ((#) c) opn) K \<noteq> None \<or>
        (lo = 0 \<and> K (p, c # cs, g, opn) \<noteq> None)"
      unfolding step
      by (cases "rep ?B cs (lo - 1) None (Some c, cs, g, map ((#) c) opn) K") simp_all
    have IH: "rep ?B cs (lo - 1) None (Some c, cs, g, map ((#) c) opn) K \<noteq> None \<longleftrightarrow>
        (\<exists>m. lo - 1 \<le> m \<and> m \<le> length (takeWhile ?P cs) \<and>
             K (advance m (Some c, cs, g, map ((#) c) opn)) \<noteq> None)"
      by (rule Cons.IH)
    have adv: "\<And>m. advance (Suc m) (p, c # cs, g, opn) = advance m (Some c, cs, g, map ((#) c) opn)"
      by (simp add: advance_Suc consume_def)
    have tw: "length (takeWhile ?P (c # cs)) = Suc (length (takeWhile ?P cs))"
      using True by simp
    show ?thesis
    proof
      assume "rep ?B (c # cs) lo None (p, c # cs, g, opn) K \<noteq> None"
      with step' have "rep ?B cs (lo - 1) None (Some c, cs, g, map ((#) c) opn) K \<noteq> None \<or>
          (lo = 0 \<and> K (p, c # cs, g, opn) \<noteq> None)"
        by blast
      then show "\<exists>n. lo \<le> n \<and> n \<le> length (takeWhile ?P (c # cs)) \<and>
          K (advance n (p, c # cs, g, opn)) \<noteq> None"
      proof
        assume "rep ?B cs (lo - 1) None (Some c, cs, g, map ((#) c) opn) K \<noteq> None"
        with IH obtain m where m: "lo - 1 \<le> m" "m \<le> length (takeWhile ?P cs)"
          "K (advance m (Some c, cs, g, map ((#) c) opn)) \<noteq> None" by blast
        have "lo \<le> Suc m" using m(1) by arith
        moreover have "Suc m \<le> length (takeWhile ?P (c # cs))" using m(2) tw by simp
        moreover have "K (advance (Suc m) (p, c # cs, g, opn)) \<noteq> None"
          using m(3) adv by simp
        ultimately show ?thesis by blast
      next
        assume "lo = 0 \<and> K (p, c # cs, g, opn) \<noteq> None"
        then have "lo \<le> 0 \<and> 0 \<le> length (takeWhile ?P (c # cs)) \<and>
            K (advance 0 (p, c # cs, g, opn)) \<noteq> None"
          by (simp add: advance_0)
        then show ?thesis by blast
      qed
    next
      assume "\<exists>n. lo \<le> n \<and> n \<le> length (takeWhile ?P (c # cs)) \<and>
          K (advance n (p, c # cs, g, opn)) \<noteq> None"
      then obtain n where n: "lo \<le> n" "n \<le> length (takeWhile ?P (c # cs))"
        "K (advance n (p, c # cs, g, opn)) \<noteq> None" by blast
      show "rep ?B (c # cs) lo None (p, c # cs, g, opn) K \<noteq> None"
      proof (cases n)
        case 0
        with n have "lo = 0 \<and> K (p, c # cs, g, opn) \<noteq> None" by (simp add: advance_0)
        with step' show ?thesis by blast
      next
        case (Suc m)
        have "lo - 1 \<le> m" using n(1) Suc by arith
        moreover have "m \<le> length (takeWhile ?P cs)" using n(2) Suc tw by simp
        moreover have "K (advance m (Some c, cs, g, map ((#) c) opn)) \<noteq> None"
          using n(3) Suc adv by simp
        ultimately have "rep ?B cs (lo - 1) None (Some c, cs, g, map ((#) c) opn) K \<noteq> None"
          using IH by blast
        with step' show ?thesis by blast
      qed
    qed
  qed
qed


lemma take_within_takeWhile:
  "n \<le> length (takeWhile P l) \<Longrightarrow> list_all P (take n l)"
proof (induction l arbitrary: n)
  case Nil
  show ?case by simp
next
  case (Cons a l)
  show ?case
  proof (cases n)
    case 0
    then show ?thesis by simp
  next
    case (Suc m)
    with Cons.prems have "P a" and "m \<le> length (takeWhile P l)"
      by (auto split: if_splits)
    with Cons.IH[of m] Suc show ?thesis by simp
  qed
qed

lemma all_caps_iff:
  assumes nl: "P (CHR 0x0A)"
  shows "(\<exists>n. 1 \<le> n \<and> n \<le> length (takeWhile P l) \<and> (drop n l = [] \<or> drop n l = [CHR 0x0A])) \<longleftrightarrow>
         l \<noteq> [] \<and> list_all P l"
proof
  assume "\<exists>n. 1 \<le> n \<and> n \<le> length (takeWhile P l) \<and> (drop n l = [] \<or> drop n l = [CHR 0x0A])"
  then obtain n where n: "1 \<le> n" "n \<le> length (takeWhile P l)"
    and d: "drop n l = [] \<or> drop n l = [CHR 0x0A]" by blast
  have "length (takeWhile P l) \<le> length l" by (rule length_takeWhile_le)
  with n have ne: "l \<noteq> []" by auto
  have t: "list_all P (take n l)" using n(2) by (rule take_within_takeWhile)
  from d nl have "list_all P (drop n l)" by auto
  with t have "list_all P (take n l @ drop n l)" by (simp only: list_all_append)
  then have "list_all P l" by (simp only: append_take_drop_id)
  with ne show "l \<noteq> [] \<and> list_all P l" by simp
next
  assume a: "l \<noteq> [] \<and> list_all P l"
  then have tw: "takeWhile P l = l" by (simp add: list_all_iff)
  have "1 \<le> length l" using a by (cases l) simp_all
  moreover have "length l \<le> length (takeWhile P l)" by (simp only: tw)
  ultimately have "1 \<le> length l \<and> length l \<le> length (takeWhile P l) \<and>
      (drop (length l) l = [] \<or> drop (length l) l = [CHR 0x0A])"
    by simp
  then show "\<exists>n. 1 \<le> n \<and> n \<le> length (takeWhile P l) \<and> (drop n l = [] \<or> drop n l = [CHR 0x0A])"
    by blast
qed

lemma enumerated_iff:
  "(\<exists>n. 1 \<le> n \<and> n \<le> length (takeWhile ch_isdecimal l) \<and>
        (\<exists>c rest. drop n l = c # rest \<and> (c = CHR ''.'' \<or> c = CHR '')''))) \<longleftrightarrow> enumerated l"
proof
  assume "\<exists>n. 1 \<le> n \<and> n \<le> length (takeWhile ch_isdecimal l) \<and>
        (\<exists>c rest. drop n l = c # rest \<and> (c = CHR ''.'' \<or> c = CHR '')''))"
  then obtain n c rest where n: "1 \<le> n" "n \<le> length (takeWhile ch_isdecimal l)"
    and d: "drop n l = c # rest" "c = CHR ''.'' \<or> c = CHR '')''" by blast
  have t: "list_all ch_isdecimal (take n l)" using n(2) by (rule take_within_takeWhile)
  have "l = take n l @ drop n l" by simp
  with d have l: "l = take n l @ c # rest" by simp
  from d(1) have "l \<noteq> []" by auto
  with n(1) have "take n l \<noteq> []" by (cases l; cases n) simp_all
  with l t d(2) show "enumerated l" unfolding enumerated_def by blast
next
  assume "enumerated l"
  then obtain ds c rest where l: "l = ds @ c # rest" and ds: "ds \<noteq> []" "list_all ch_isdecimal ds"
    and c: "c = CHR ''.'' \<or> c = CHR '')''" unfolding enumerated_def by blast
  from ds(2) have "takeWhile ch_isdecimal l = ds @ takeWhile ch_isdecimal (c # rest)"
    unfolding l by (simp add: list_all_iff)
  then have "length ds \<le> length (takeWhile ch_isdecimal l)" by simp
  moreover have "1 \<le> length ds" using ds(1) by (cases ds) simp_all
  moreover have "drop (length ds) l = c # rest" unfolding l by simp
  ultimately show "\<exists>n. 1 \<le> n \<and> n \<le> length (takeWhile ch_isdecimal l) \<and>
        (\<exists>c rest. drop n l = c # rest \<and> (c = CHR ''.'' \<or> c = CHR '')''))"
    using c by blast
qed

lemma cls_digit: "cls_match False False [CDigit] = ch_isdecimal"
  by (rule ext) (simp add: cls_match_def)

lemma cls_caps: "cls_match False False [A_Z, CSpace] = caps_or_space"
  by (rule ext) (simp add: cls_match_def caps_or_space_def ord_def)

lemma cls_enum: "cls_match False False [CChr CHR ''.'', CChr CHR '')''] c = (c = CHR ''.'' \<or> c = CHR '')'')"
  by (auto simp: cls_match_def)

lemma accept_advance: "accept False (advance n (p, s, g, [[]])) \<noteq> None"
  by (simp add: accept_def advance_def)

lemma match_enumerated:
  "re_match False (seqs [Bol, plus (cset [CDigit]), cset [CChr CHR ''.'', CChr CHR '')'']]) line \<noteq> None
   \<longleftrightarrow> enumerated line"
proof -
  let ?K = "\<lambda>st'. rmatch False (Cls False [CChr CHR ''.'', CChr CHR '')'']) st' (accept False)"
  have K: "\<And>n. ?K (advance n (None, line, [], [[]])) \<noteq> None \<longleftrightarrow>
      (\<exists>c rest. drop n line = c # rest \<and> (c = CHR ''.'' \<or> c = CHR '')''))"
    by (auto simp: advance_def cls_enum consume_def accept_def split: list.splits)
  have e: "re_match False (seqs [Bol, plus (cset [CDigit]), cset [CChr CHR ''.'', CChr CHR '')'']]) line =
      rep (\<lambda>st k. rmatch False (Cls False [CDigit]) st k) line 1 None (None, line, [], [[]]) ?K"
    by (simp add: re_match_def match_at_def plus_def cset_def)
  have "rep (\<lambda>st k. rmatch False (Cls False [CDigit]) st k) line 1 None (None, line, [], [[]]) ?K
        \<noteq> None \<longleftrightarrow>
      (\<exists>n. 1 \<le> n \<and> n \<le> length (takeWhile (cls_match False False [CDigit]) line) \<and>
           ?K (advance n (None, line, [], [[]])) \<noteq> None)"
    by (rule rep_class)
  also have "\<dots> \<longleftrightarrow> (\<exists>n. 1 \<le> n \<and> n \<le> length (takeWhile ch_isdecimal line) \<and>
        (\<exists>c rest. drop n line = c # rest \<and> (c = CHR ''.'' \<or> c = CHR '')'')))"
    by (simp only: K cls_digit)
  also have "\<dots> \<longleftrightarrow> enumerated line" by (rule enumerated_iff)
  finally show ?thesis by (simp only: e)
qed

lemma match_all_caps:
  "re_match False (seqs [Bol, plus (cset [A_Z, CSpace]), Eol]) line \<noteq> None
   \<longleftrightarrow> line \<noteq> [] \<and> list_all caps_or_space line"
proof -
  let ?K = "\<lambda>st'. rmatch False Eol st' (accept False)"
  have K: "\<And>n. ?K (advance n (None, line, [], [[]])) \<noteq> None \<longleftrightarrow>
      (drop n line = [] \<or> drop n line = [CHR 0x0A])"
    by (auto simp: advance_def accept_def)
  have nl: "caps_or_space (CHR 0x0A)"
    by (simp add: caps_or_space_def ch_isspace_def between_def ord_def)
  have e: "re_match False (seqs [Bol, plus (cset [A_Z, CSpace]), Eol]) line =
      rep (\<lambda>st k. rmatch False (Cls False [A_Z, CSpace]) st k) line 1 None (None, line, [], [[]]) ?K"
    by (simp add: re_match_def match_at_def plus_def cset_def)
  have "rep (\<lambda>st k. rmatch False (Cls False [A_Z, CSpace]) st k) line 1 None (None, line, [], [[]]) ?K
        \<noteq> None \<longleftrightarrow>
      (\<exists>n. 1 \<le> n \<and> n \<le> length (takeWhile (cls_match False False [A_Z, CSpace]) line) \<and>
           ?K (advance n (None, line, [], [[]])) \<noteq> None)"
    by (rule rep_class)
  also have "\<dots> \<longleftrightarrow> (\<exists>n. 1 \<le> n \<and> n \<le> length (takeWhile caps_or_space line) \<and>
        (drop n line = [] \<or> drop n line = [CHR 0x0A]))"
    by (simp only: K cls_caps)
  also have "\<dots> \<longleftrightarrow> line \<noteq> [] \<and> list_all caps_or_space line"
    using nl by (rule all_caps_iff[of caps_or_space])
  finally show ?thesis by (simp only: e)
qed

lemma looks_like_metadata_iff:
  "looks_like_metadata line \<longleftrightarrow> enumerated line \<or> (line \<noteq> [] \<and> list_all caps_or_space line)"
  unfolding looks_like_metadata_def match_enumerated match_all_caps by (rule refl)

lemma first_name_line_find: "first_name_line ls = find name_like (map strip ls)"
  by (induction ls) (simp_all add: name_like_def Let_def)

lemma first_nonempty_line_find:
  "first_nonempty_line ls = map_option (take 80) (find (\<lambda>l. l \<noteq> []) (map strip ls))"
  by (induction ls) (simp_all add: Let_def)

text \<open>
  C9 (as amended). The lines of a section are the pieces between line feeds, stripped
  of white space at both ends. The product name is the first line with more than 10 and
  fewer than 100 characters that neither begins with decimal digits followed by \<open>.\<close>
  or \<open>)\<close> nor consists of letters \<open>A\<close> to \<open>Z\<close> and white space only; if there is none,
  the first non-empty line cut to 80 characters; if there is none, the literal
  \<open>Produit extrait\<close>.
\<close>

theorem product_name_rule:
  "extract_product_name text =
     (case find name_like (map strip (split_on CHR 0x0A text)) of
        Some line \<Rightarrow> line
      | None \<Rightarrow>
          (case find (\<lambda>l. l \<noteq> []) (map strip (split_on CHR 0x0A text)) of
             Some line \<Rightarrow> take 80 line
           | None \<Rightarrow> ''Produit extrait'')) \<and>
   (name_like line \<longleftrightarrow>
      10 < length line \<and> length line < 100 \<and> \<not> enumerated line \<and>
      \<not> (line \<noteq> [] \<and> list_all caps_or_space line))"
  by (simp add: extract_product_name_def first_name_line_find first_nonempty_line_find Let_def
      name_like_def looks_like_metadata_iff split: option.splits)

lemma demo_name:
  "extract_product_name demo_lines = ''Perceuse BOSCH'' \<and>
   map strip (split_on CHR 0x0A demo_lines) =
     [''1. abcdefghijkl'', ''ABC DEF GHI JKL'', ''Perceuse BOSCH''] \<and>
   find name_like (map strip (split_on CHR 0x0A demo_lines)) = Some ''Perceuse BOSCH''"
  unfolding demo_lines_def by code_simp

theorem product_name_rule_witness:
  "extract_product_name demo_lines = ''Perceuse BOSCH'' \<and>
   map strip (split_on CHR 0x0A demo_lines) =
     [''1. abcdefghijkl'', ''ABC DEF GHI JKL'', ''Perceuse BOSCH''] \<and>
   find name_like (map strip (split_on CHR 0x0A demo_lines)) = Some ''Perceuse BOSCH'' \<and>
   name_like ''Perceuse BOSCH'' \<and> \<not> name_like ''1. abcdefghijkl'' \<and>
   \<not> name_like ''ABC DEF GHI JKL''"
proof -
  have "name_like ''Perceuse BOSCH'' \<and> \<not> name_like ''1. abcdefghijkl'' \<and>
      \<not> name_like ''ABC DEF GHI JKL''"
    by code_simp
  with product_name_rule [of demo_lines "''Perceuse BOSCH''"] demo_name show ?thesis
    by simp
qed

text \<open>
  The claim as written fails on the placeholder: for a section without a non-empty
  line the source returns \<open>Produit extrait\<close>. The line tests are those of the two
  patterns: an upper-case line with a digit or a hyphen is taken as the name.
\<close>

theorem product_name_counterexample:
  "extract_product_name [] = ''Produit extrait'' \<and>
   extract_product_name ''   '' = ''Produit extrait'' \<and>
   ''Produit extrait'' \<noteq> ''extracted product'' \<and>
   extract_product_name ''PERCEUSE BOSCH GSB-120'' = ''PERCEUSE BOSCH GSB-120''"
  by code_simp

subsection \<open>Categories of characteristics\<close>






lemma scenario_lines_brands:
  "map_sum id (map b_normalized_name) (extract_brands scenario_lines) =
     Inr [''BOSCH R'', ''BOSCH'', ''LI'']"
  by code_simp





end
